theory Spec2Isabelle
  imports Complex_Main "HOL-Library.Word"
begin

unbundle bit_operations_syntax

section \<open>Conventions of the embedding\<close>

text \<open>
  The development embeds \<^verbatim>\<open>GPU/Common/DepthRaster.cpp\<close>.

  \<^item> In the triangle rasterizer, where coordinates are multiplied, a C++ \<^verbatim>\<open>int\<close> is a
    32-bit word: the arithmetic wraps around, as the compiled code does, and \<open>sint\<close>
    reads the value. Where the code only copies, compares and counts with an \<^verbatim>\<open>int\<close>
    (the vertex records, the loop counters, the rectangle rows), it is an Isabelle
    \<^typ>\<open>int\<close> holding the value.
  \<^item> \<^verbatim>\<open>uint16_t\<close>, \<^verbatim>\<open>short\<close>, \<^verbatim>\<open>s8\<close>, \<^verbatim>\<open>s16\<close> and \<^verbatim>\<open>u32\<close> values, and the lanes of
    an \<^verbatim>\<open>__m128i\<close>, are machine words.
  \<^item> A pointer to an array is the array itself, a function from the element index
    (relative to the pointer, possibly negative) to the element. Writing through the
    pointer is function update. Bounds of the allocation are not modelled.
  \<^item> \<^verbatim>\<open>float\<close> is a type parameter \<open>'f\<close>; the arithmetic, the comparisons and the
    conversions of the language are the fields of a record that every function that
    computes with floats receives. Nothing is assumed about rounding, infinities or NaN
    unless a theorem says so in a hypothesis.
\<close>

section \<open>Lane vectors (\<^verbatim>\<open>Vec4S32\<close>)\<close>

text \<open>An \<^verbatim>\<open>__m128i\<close> seen as four 32-bit lanes, lane 0 the least significant.\<close>

datatype m128i = M128i (lane0: "32 word") (lane1: "32 word") (lane2: "32 word") (lane3: "32 word")

definition lane :: "m128i \<Rightarrow> nat \<Rightarrow> 32 word" where
  "lane v k = (if k = 0 then lane0 v else if k = 1 then lane1 v
               else if k = 2 then lane2 v else lane3 v)"

text \<open>\<^verbatim>\<open>_mm_shuffle_epi32(v, imm)\<close>: lane \<open>k\<close> of the result is the lane of \<open>v\<close> selected by
  bits \<open>2k+1..2k\<close> of the immediate.\<close>

definition mm_shuffle_epi32 :: "m128i \<Rightarrow> 8 word \<Rightarrow> m128i" where
  "mm_shuffle_epi32 v imm =
     M128i (lane v (unat (imm AND 3)))
           (lane v (unat (drop_bit 2 imm AND 3)))
           (lane v (unat (drop_bit 4 imm AND 3)))
           (lane v (unat (drop_bit 6 imm AND 3)))"

text \<open>\<^verbatim>\<open>_mm_mul_epu32(a, b)\<close>: the unsigned 64-bit products of lanes 0 and of lanes 2, each
  stored in a 64-bit half, that is in two consecutive 32-bit lanes (low word first).\<close>

definition mul_epu32_lane :: "32 word \<Rightarrow> 32 word \<Rightarrow> 64 word" where
  "mul_epu32_lane a b = (ucast a :: 64 word) * (ucast b :: 64 word)"

definition mm_mul_epu32 :: "m128i \<Rightarrow> m128i \<Rightarrow> m128i" where
  "mm_mul_epu32 a b =
     (let p0 = mul_epu32_lane (lane0 a) (lane0 b);
          p1 = mul_epu32_lane (lane2 a) (lane2 b)
      in M128i (ucast p0) (ucast (drop_bit 32 p0)) (ucast p1) (ucast (drop_bit 32 p1)))"

definition mm_unpacklo_epi32 :: "m128i \<Rightarrow> m128i \<Rightarrow> m128i" where
  "mm_unpacklo_epi32 a b = M128i (lane0 a) (lane0 b) (lane1 a) (lane1 b)"

definition mm_unpackhi_epi32 :: "m128i \<Rightarrow> m128i \<Rightarrow> m128i" where
  "mm_unpackhi_epi32 a b = M128i (lane2 a) (lane2 b) (lane3 a) (lane3 b)"

definition mm_unpacklo_epi64 :: "m128i \<Rightarrow> m128i \<Rightarrow> m128i" where
  "mm_unpacklo_epi64 a b = M128i (lane0 a) (lane1 a) (lane0 b) (lane1 b)"

text \<open>\<^verbatim>\<open>Vec4S32::operator *\<close> of the SSE2 build.\<close>

definition Vec4S32_mul_SSE2 :: "m128i \<Rightarrow> m128i \<Rightarrow> m128i" where
  "Vec4S32_mul_SSE2 v other =
     (let a13 = mm_shuffle_epi32 v 0xF5;
          b13 = mm_shuffle_epi32 other 0xF5;
          prod02 = mm_mul_epu32 v other;
          prod13 = mm_mul_epu32 a13 b13;
          prod01 = mm_unpacklo_epi32 prod02 prod13;
          prod23 = mm_unpackhi_epi32 prod02 prod13
      in mm_unpacklo_epi64 prod01 prod23)"

text \<open>\<^verbatim>\<open>vmulq_s32\<close>, the native lane multiply of NEON, and \<^verbatim>\<open>Vec4S32::operator *\<close> of the
  NEON build.\<close>

definition vmulq_s32 :: "m128i \<Rightarrow> m128i \<Rightarrow> m128i" where
  "vmulq_s32 a b =
     M128i (lane0 a * lane0 b) (lane1 a * lane1 b) (lane2 a * lane2 b) (lane3 a * lane3 b)"

definition Vec4S32_mul_NEON :: "m128i \<Rightarrow> m128i \<Rightarrow> m128i" where
  "Vec4S32_mul_NEON v other = vmulq_s32 v other"

section \<open>Shared data\<close>

text \<open>The three build configurations the file distinguishes with \<^verbatim>\<open>PPSSPP_ARCH\<close>.\<close>

datatype arch = SSE2 | ARM64_NEON | Other_arch

datatype GEComparison =
    GE_COMP_NEVER | GE_COMP_ALWAYS | GE_COMP_EQUAL | GE_COMP_NOTEQUAL
  | GE_COMP_LESS | GE_COMP_LEQUAL | GE_COMP_GREATER | GE_COMP_GEQUAL

type_synonym depth_buffer = "int \<Rightarrow> 16 word"

section \<open>Rectangles (\<^verbatim>\<open>DepthRasterRect\<close>)\<close>

text \<open>\<^verbatim>\<open>memset(ptr, 0, n)\<close> on a \<^verbatim>\<open>uint16_t\<close> array: \<open>n\<close> bytes from cell \<open>ptr\<close> on become
  zero; cell \<open>ptr + k\<close> holds bytes \<open>2k\<close> and \<open>2k + 1\<close>. The callers pass an even \<open>n\<close>.\<close>

definition memset0 :: "depth_buffer \<Rightarrow> int \<Rightarrow> int \<Rightarrow> depth_buffer" where
  "memset0 dest ptr n = (\<lambda>i. if ptr \<le> i \<and> 2 * (i - ptr) < n then 0 else dest i)"

text \<open>\<^verbatim>\<open>_mm_storeu_si128\<close> and \<^verbatim>\<open>vst1q_u16\<close> of a vector whose eight 16-bit lanes all hold
  \<open>v\<close>: eight consecutive cells from \<open>ptr\<close> on become \<open>v\<close>.\<close>

definition store_x8 :: "depth_buffer \<Rightarrow> int \<Rightarrow> 16 word \<Rightarrow> depth_buffer" where
  "store_x8 dest ptr v = (\<lambda>i. if ptr \<le> i \<and> i < ptr + 8 then v else dest i)"

text \<open>\<^verbatim>\<open>while (w >= 8) { store; ptr++; w -= 8; }\<close> (the pointer steps by one vector, eight
  cells).\<close>

function store_loop :: "depth_buffer \<Rightarrow> int \<Rightarrow> int \<Rightarrow> 16 word \<Rightarrow> depth_buffer" where
  "store_loop dest ptr w v =
     (if w \<ge> 8 then store_loop (store_x8 dest ptr v) (ptr + 8) (w - 8) v else dest)"
  by pat_completeness auto
termination
  by (relation "measure (\<lambda>(dest, ptr, w, v). nat w)") auto

declare store_loop.simps [simp del]

text \<open>The body of the row loop, the same in the SSE2 and the ARM64 build.\<close>

definition rect_row ::
  "depth_buffer \<Rightarrow> int \<Rightarrow> int \<Rightarrow> int \<Rightarrow> int \<Rightarrow> 16 word \<Rightarrow> GEComparison \<Rightarrow> depth_buffer" where
  "rect_row dest stride x1 x2 y depthValue depthCompare =
     (let ptr = stride * y + x1;
          w = x2 - x1
      in case depthCompare of
           GE_COMP_ALWAYS \<Rightarrow>
             (if depthValue = 0 then memset0 dest ptr (w * 2)
              else store_loop dest ptr w depthValue)
         | GE_COMP_NEVER \<Rightarrow> dest
         | _ \<Rightarrow> dest)"

text \<open>\<^verbatim>\<open>for (int y = y1; y < y2; y++)\<close>.\<close>

function rect_rows ::
  "depth_buffer \<Rightarrow> int \<Rightarrow> int \<Rightarrow> int \<Rightarrow> int \<Rightarrow> int \<Rightarrow> 16 word \<Rightarrow> GEComparison \<Rightarrow> depth_buffer" where
  "rect_rows dest stride x1 x2 y y2 depthValue depthCompare =
     (if y < y2
      then rect_rows (rect_row dest stride x1 x2 y depthValue depthCompare)
             stride x1 x2 (y + 1) y2 depthValue depthCompare
      else dest)"
  by pat_completeness auto
termination
  by (relation "measure (\<lambda>(dest, stride, x1, x2, y, y2, v, c). nat (y2 - y))") auto

declare rect_rows.simps [simp del]

definition DepthRasterRect ::
  "arch \<Rightarrow> depth_buffer \<Rightarrow> int \<Rightarrow> int \<Rightarrow> int \<Rightarrow> int \<Rightarrow> int \<Rightarrow> 16 word \<Rightarrow> GEComparison
     \<Rightarrow> depth_buffer" where
  "DepthRasterRect a dest stride x1 y1 x2 y2 depthValue depthCompare =
     (let (x1, x2) = (if x1 > x2 then (x2, x1) else (x1, x2));
          (y1, y2) = (if y1 > y2 then (y2, y1) else (y1, y2))
      in if x1 = x2 then dest
         else if y1 = y2 then dest
         else (case a of
                 SSE2 \<Rightarrow> rect_rows dest stride x1 x2 y1 y2 depthValue depthCompare
               | ARM64_NEON \<Rightarrow> rect_rows dest stride x1 x2 y1 y2 depthValue depthCompare
               | Other_arch \<Rightarrow> dest))"

text \<open>The number of cells, from the left edge, that the row body writes in a row of width
  \<open>w\<close> with \<^verbatim>\<open>GE_COMP_ALWAYS\<close>: all of them when the depth value is zero, otherwise the whole
  groups of eight.\<close>

definition covered_width :: "int \<Rightarrow> 16 word \<Rightarrow> int" where
  "covered_width w v = (if v = 0 then w else 8 * (w div 8))"

section \<open>Floating point\<close>

text \<open>The operations of \<^verbatim>\<open>float\<close> that the file uses. \<open>from_int\<close> is the conversion of an
  integer value (\<^verbatim>\<open>(float)i\<close>, and the literals \<^verbatim>\<open>1.0f\<close>, \<^verbatim>\<open>16.0f\<close>, ...), \<open>to_int\<close> the
  conversion \<^verbatim>\<open>(int)f\<close>, \<open>to_u16\<close> the conversion \<^verbatim>\<open>(u16)f\<close>. \<^verbatim>\<open>a > b\<close> is \<open>flt b a\<close>,
  \<^verbatim>\<open>a >= b\<close> is \<open>fle b a\<close>, \<^verbatim>\<open>a != b\<close> is \<open>\<not> feq a b\<close>.\<close>

record 'f float_ops =
  from_int :: "int \<Rightarrow> 'f"
  to_int :: "'f \<Rightarrow> int"
  to_u16 :: "'f \<Rightarrow> 16 word"
  fadd :: "'f \<Rightarrow> 'f \<Rightarrow> 'f"
  fsub :: "'f \<Rightarrow> 'f \<Rightarrow> 'f"
  fmul :: "'f \<Rightarrow> 'f \<Rightarrow> 'f"
  fdiv :: "'f \<Rightarrow> 'f \<Rightarrow> 'f"
  flt :: "'f \<Rightarrow> 'f \<Rightarrow> bool"
  fle :: "'f \<Rightarrow> 'f \<Rightarrow> bool"
  feq :: "'f \<Rightarrow> 'f \<Rightarrow> bool"

text \<open>Exact arithmetic: floats as real numbers, no rounding. The conversions to integers
  truncate towards zero, as the C++ conversions do on values in range.\<close>

definition trunc0 :: "real \<Rightarrow> int" where
  "trunc0 v = (if 0 \<le> v then \<lfloor>v\<rfloor> else \<lceil>v\<rceil>)"

definition exact_ops :: "real float_ops" where
  "exact_ops =
     \<lparr> from_int = real_of_int, to_int = trunc0, to_u16 = (\<lambda>v. word_of_int (trunc0 v)),
       fadd = (+), fsub = (-), fmul = (*), fdiv = (/),
       flt = (<), fle = (\<le>), feq = (=) \<rparr>"

section \<open>Triangles (\<^verbatim>\<open>DepthRasterTriangle\<close>)\<close>

text \<open>\<^verbatim>\<open>struct ScreenVert\<close>; the fields \<^verbatim>\<open>x\<close>, \<^verbatim>\<open>y\<close>, \<^verbatim>\<open>z\<close> are \<open>vx\<close>, \<open>vy\<close>, \<open>vz\<close> here.\<close>

record ScreenVert =
  vx :: int
  vy :: int
  vz :: "16 word"
  behind :: "16 word"

text \<open>The triangle rasterizer computes with 32-bit \<^verbatim>\<open>int\<close>: \<open>word_of_int\<close> gives the 32-bit
  value of a coordinate, of the scissor rectangle and of the stride, \<open>+\<close>, \<open>-\<close> and \<open>*\<close> wrap
  around, \<open>sint\<close> reads a value for the comparisons, for the conversion to \<^verbatim>\<open>float\<close> and for
  indexing. \<^verbatim>\<open>std::max\<close> and \<^verbatim>\<open>std::min\<close> on \<^verbatim>\<open>int\<close>:\<close>

definition smax :: "32 word \<Rightarrow> 32 word \<Rightarrow> 32 word" where
  "smax a b = (if sint a < sint b then b else a)"

definition smin :: "32 word \<Rightarrow> 32 word \<Rightarrow> 32 word" where
  "smin a b = (if sint b < sint a then b else a)"

text \<open>A loop counter below its bound does not overflow when it is stepped.\<close>

lemma sint_succ: "sint (c :: 32 word) < sint (e :: 32 word) \<Longrightarrow> sint (c + 1) = sint c + 1"
proof -
  assume a: "sint c < sint e"
  have "sint e < 2 ^ 31" using sint_lt[of e] by simp
  moreover have "- (2 ^ 31) \<le> sint c" using sint_ge[of c] by simp
  ultimately have "- (2 ^ 31) \<le> sint c + 1" "sint c + 1 < 2 ^ 31" using a by simp_all
  then show ?thesis
    by (simp add: sint_word_ariths signed_take_bit_int_eq_self)
qed

text \<open>The values fixed by the triangle setup: the bounding box clipped to the scissor
  rectangle, the edge equations and the area.\<close>

record TriSetup =
  startX :: "32 word"
  endX :: "32 word"
  startY :: "32 word"
  endY :: "32 word"
  A0 :: "32 word"
  A1 :: "32 word"
  A2 :: "32 word"
  B0 :: "32 word"
  B1 :: "32 word"
  B2 :: "32 word"
  C0 :: "32 word"
  C1 :: "32 word"
  C2 :: "32 word"
  triArea :: "32 word"

text \<open>The setup. \<open>s0\<close>, \<open>s1\<close>, \<open>s2\<close> are \<^verbatim>\<open>vertsSub[0]\<close>, \<^verbatim>\<open>vertsSub[1]\<close>, \<^verbatim>\<open>vertsSub[2]\<close>; the local
  array \<^verbatim>\<open>verts\<close> holds them in the order 0, 2, 1: \<open>v0x\<close>, \<open>v0y\<close> are \<^verbatim>\<open>verts[0].x\<close>,
  \<^verbatim>\<open>verts[0].y\<close>, and so on.\<close>

definition triangle_setup ::
  "int \<Rightarrow> int \<Rightarrow> int \<Rightarrow> int \<Rightarrow> ScreenVert \<Rightarrow> ScreenVert \<Rightarrow> ScreenVert \<Rightarrow> TriSetup" where
  "triangle_setup x1 y1 x2 y2 s0 s1 s2 =
     (let tileStartX = word_of_int x1; tileEndX = word_of_int x2;
          tileStartY = word_of_int y1; tileEndY = word_of_int y2;
          v0x = word_of_int (vx s0); v0y = word_of_int (vy s0);
          v1x = word_of_int (vx s2); v1y = word_of_int (vy s2);
          v2x = word_of_int (vx s1); v2y = word_of_int (vy s1);
          a0 = v1y - v2y;
          b0 = v2x - v1x;
          c0 = v1x * v2y - v2x * v1y
      in \<lparr> startX = smax (smin (smin v0x v1x) v2x) tileStartX,
           endX = smin (smax (smax v0x v1x) v2x + 1) tileEndX,
           startY = smax (smin (smin v0y v1y) v2y) tileStartY,
           endY = smin (smax (smax v0y v1y) v2y + 1) tileEndY,
           A0 = a0,
           A1 = v2y - v0y,
           A2 = v0y - v1y,
           B0 = b0,
           B1 = v0x - v2x,
           B2 = v1x - v0x,
           C0 = c0,
           C1 = v2x * v0y - v0x * v2y,
           C2 = v0x * v1y - v1x * v0y,
           triArea = a0 * v0x + b0 * v0y + c0 \<rparr>)"

text \<open>The per-vertex depth weights \<^verbatim>\<open>zz[vv] = (float)verts[vv].z * oneOverTriArea\<close>.\<close>

definition depth_weights ::
  "'f float_ops \<Rightarrow> TriSetup \<Rightarrow> ScreenVert \<Rightarrow> ScreenVert \<Rightarrow> ScreenVert \<Rightarrow> 'f \<times> 'f \<times> 'f" where
  "depth_weights F t s0 s1 s2 =
     (let v0 = s0; v1 = s2; v2 = s1;
          oneOverTriArea = fdiv F (from_int F 1) (from_int F (sint (triArea t)))
      in (fmul F (from_int F (uint (vz v0))) oneOverTriArea,
          fmul F (from_int F (uint (vz v1))) oneOverTriArea,
          fmul F (from_int F (uint (vz v2))) oneOverTriArea))"

text \<open>The loop variables at one pixel: \<^verbatim>\<open>r\<close>, \<^verbatim>\<open>c\<close>, \<^verbatim>\<open>idx\<close>, \<^verbatim>\<open>alpha\<close>, \<^verbatim>\<open>beta\<close>, \<^verbatim>\<open>gamma\<close>.\<close>

record pixel =
  px_r :: "32 word"
  px_c :: "32 word"
  px_idx :: "32 word"
  px_alpha :: "32 word"
  px_beta :: "32 word"
  px_gamma :: "32 word"

text \<open>The column loop
  \<^verbatim>\<open>for (int c = startX; c < endX; c++, idx++, alpha += A0, beta += A1, gamma += A2)\<close>:
  the loop variables of every iteration, in order. The loop body does not assign them.\<close>

function col_pixels ::
  "TriSetup \<Rightarrow> 32 word \<Rightarrow> 32 word \<Rightarrow> 32 word \<Rightarrow> 32 word \<Rightarrow> 32 word \<Rightarrow> 32 word \<Rightarrow> pixel list" where
  "col_pixels t r c idx alpha beta gamma =
     (if sint c < sint (endX t)
      then \<lparr> px_r = r, px_c = c, px_idx = idx,
             px_alpha = alpha, px_beta = beta, px_gamma = gamma \<rparr>
           # col_pixels t r (c + 1) (idx + 1) (alpha + A0 t) (beta + A1 t) (gamma + A2 t)
      else [])"
  by pat_completeness auto
termination
  by (relation "measure (\<lambda>(t, r, c, idx, alpha, beta, gamma). nat (sint (endX t) - sint c))")
    (auto simp: sint_succ)

declare col_pixels.simps [simp del]

text \<open>The row loop
  \<^verbatim>\<open>for (int r = startY; r < endY; r++, row++, rowIdx += stride, alpha0 += B0, beta0 += B1, gamma0 += B2)\<close>
  around the column loop, which starts from \<^verbatim>\<open>idx = rowIdx\<close> and the row steppers.
  (\<^verbatim>\<open>row\<close> is stepped with \<^verbatim>\<open>r\<close> and not read.)\<close>

function row_pixels ::
  "TriSetup \<Rightarrow> 32 word \<Rightarrow> 32 word \<Rightarrow> 32 word \<Rightarrow> 32 word \<Rightarrow> 32 word \<Rightarrow> 32 word \<Rightarrow> pixel list" where
  "row_pixels t stride r rowIdx alpha0 beta0 gamma0 =
     (if sint r < sint (endY t)
      then col_pixels t r (startX t) rowIdx alpha0 beta0 gamma0
           @ row_pixels t stride (r + 1) (rowIdx + stride)
               (alpha0 + B0 t) (beta0 + B1 t) (gamma0 + B2 t)
      else [])"
  by pat_completeness auto
termination
  by (relation "measure (\<lambda>(t, stride, r, rowIdx, alpha0, beta0, gamma0).
                  nat (sint (endY t) - sint r))")
    (auto simp: sint_succ)

declare row_pixels.simps [simp del]

text \<open>All pixels the two loops visit, from the starting corner
  \<^verbatim>\<open>rowIdx = startY * stride + startX\<close>, \<^verbatim>\<open>col = startX\<close>, \<^verbatim>\<open>row = startY\<close>. The stride is the
  32-bit value.\<close>

definition tri_pixels :: "TriSetup \<Rightarrow> 32 word \<Rightarrow> pixel list" where
  "tri_pixels t stride =
     (let rowIdx = startY t * stride + startX t;
          col = startX t;
          row = startY t;
          alpha0 = A0 t * col + B0 t * row + C0 t;
          beta0 = A1 t * col + B1 t * row + C1 t;
          gamma0 = A2 t * col + B2 t * row + C2 t
      in row_pixels t stride (startY t) rowIdx alpha0 beta0 gamma0)"

text \<open>\<^verbatim>\<open>mask\<close>: the pixel is inside the triangle.\<close>

definition inside :: "pixel \<Rightarrow> bool" where
  "inside p = (0 \<le> sint (px_alpha p) \<and> 0 \<le> sint (px_beta p) \<and> 0 \<le> sint (px_gamma p))"

text \<open>\<^verbatim>\<open>float depth = alpha * zz[0] + beta * zz[1] + gamma * zz[2]\<close>.\<close>

definition interp_depth :: "'f float_ops \<Rightarrow> 'f \<times> 'f \<times> 'f \<Rightarrow> pixel \<Rightarrow> 'f" where
  "interp_depth F zz p =
     (case zz of (zz0, zz1, zz2) \<Rightarrow>
        fadd F (fadd F (fmul F (from_int F (sint (px_alpha p))) zz0)
                       (fmul F (from_int F (sint (px_beta p))) zz1))
               (fmul F (from_int F (sint (px_gamma p))) zz2))"

text \<open>\<^verbatim>\<open>depthMask\<close>: the \<^verbatim>\<open>switch (compareMode)\<close>. \<^verbatim>\<open>GE_COMP_NEVER\<close> has no case of its own and
  takes the \<^verbatim>\<open>default\<close> branch, shared with \<^verbatim>\<open>GE_COMP_ALWAYS\<close>.\<close>

definition depth_test :: "'f float_ops \<Rightarrow> GEComparison \<Rightarrow> 'f \<Rightarrow> 'f \<Rightarrow> bool" where
  "depth_test F compareMode depth previousDepthValue =
     (case compareMode of
        GE_COMP_EQUAL \<Rightarrow> feq F depth previousDepthValue
      | GE_COMP_LESS \<Rightarrow> flt F depth previousDepthValue
      | GE_COMP_LEQUAL \<Rightarrow> fle F depth previousDepthValue
      | GE_COMP_GEQUAL \<Rightarrow> fle F previousDepthValue depth
      | GE_COMP_GREATER \<Rightarrow> flt F previousDepthValue depth
      | GE_COMP_NOTEQUAL \<Rightarrow> \<not> feq F depth previousDepthValue
      | GE_COMP_ALWAYS \<Rightarrow> True
      | _ \<Rightarrow> True)"

text \<open>The body of the column loop at one pixel; the cell is \<^verbatim>\<open>depthBuf[idx]\<close>.\<close>

definition pixel_body ::
  "'f float_ops \<Rightarrow> GEComparison \<Rightarrow> 'f \<times> 'f \<times> 'f \<Rightarrow> pixel \<Rightarrow> depth_buffer \<Rightarrow> depth_buffer" where
  "pixel_body F compareMode zz p depthBuf =
     (if \<not> inside p then depthBuf
      else
        let depth = interp_depth F zz p;
            previousDepthValue = from_int F (uint (depthBuf (sint (px_idx p))));
            depthMask = depth_test F compareMode depth previousDepthValue;
            depth = (if depthMask then depth else previousDepthValue)
        in depthBuf(sint (px_idx p) := to_u16 F depth))"

definition DepthRasterTriangle ::
  "'f float_ops \<Rightarrow> depth_buffer \<Rightarrow> int \<Rightarrow> int \<Rightarrow> int \<Rightarrow> int \<Rightarrow> int
     \<Rightarrow> ScreenVert \<Rightarrow> ScreenVert \<Rightarrow> ScreenVert \<Rightarrow> GEComparison \<Rightarrow> depth_buffer" where
  "DepthRasterTriangle F depthBuf stride x1 y1 x2 y2 s0 s1 s2 compareMode =
     (let t = triangle_setup x1 y1 x2 y2 s0 s1 s2
      in if endX t = startX t \<or> endY t = startY t then depthBuf
         else if sint (triArea t) \<le> 0 then depthBuf
         else fold (pixel_body F compareMode (depth_weights F t s0 s1 s2))
                (tri_pixels t (word_of_int stride)) depthBuf)"

section \<open>Primitives (\<^verbatim>\<open>DepthRasterPrim\<close>)\<close>

subsection \<open>The collaborators\<close>

text \<open>The primitive types of \<^verbatim>\<open>GEPrimitiveType\<close>. The source names all of them but the
  triangle fan, which takes the \<^verbatim>\<open>default\<close> branch of both switches.\<close>

datatype GEPrimitiveType =
    GE_PRIM_POINTS | GE_PRIM_LINES | GE_PRIM_LINE_STRIP | GE_PRIM_TRIANGLES
  | GE_PRIM_TRIANGLE_STRIP | GE_PRIM_TRIANGLE_FAN | GE_PRIM_RECTANGLES
  | GE_PRIM_KEEP_PREVIOUS | GE_PRIM_INVALID

text \<open>The bit masks and field values of the vertex type word. Their declarations are in
  another file of the repository, so the functions below take them as a parameter.\<close>

record vtype_consts =
  GE_VTYPE_IDX_MASK :: "32 word"
  GE_VTYPE_WEIGHT_MASK :: "32 word"
  GE_VTYPE_THROUGH_MASK :: "32 word"
  GE_VTYPE_POS_MASK :: "32 word"
  GE_VTYPE_POS_8BIT :: "32 word"
  GE_VTYPE_POS_16BIT :: "32 word"
  GE_VTYPE_POS_FLOAT :: "32 word"

text \<open>The values the emulated hardware gives them: position format in bits 7 and 8, weight
  format in bits 9 and 10, index format in bits 11 and 12, through mode in bit 23.\<close>

definition psp_vtype :: vtype_consts where
  "psp_vtype =
     \<lparr> GE_VTYPE_IDX_MASK = push_bit 11 3,
       GE_VTYPE_WEIGHT_MASK = push_bit 9 3,
       GE_VTYPE_THROUGH_MASK = push_bit 23 1,
       GE_VTYPE_POS_MASK = push_bit 7 3,
       GE_VTYPE_POS_8BIT = push_bit 7 1,
       GE_VTYPE_POS_16BIT = push_bit 7 2,
       GE_VTYPE_POS_FLOAT = push_bit 7 3 \<rparr>"

text \<open>What the function reads of the global \<^verbatim>\<open>gstate\<close>: every field is the result of the
  query of the same name. \<open>getCullMode\<close> is the cull direction; the function has a local
  \<^verbatim>\<open>cullCCW\<close> for it and never queries it. \<open>getOffsetX16\<close> and \<open>getOffsetY16\<close> are the
  values as the float subtraction receives them.\<close>

record 'f GPUgstate =
  getDepthTestFunction :: GEComparison
  isModeClear :: bool
  isClearModeDepthMask :: bool
  isDepthTestEnabled :: bool
  isDepthWriteEnabled :: bool
  isCullEnabled :: bool
  getCullMode :: int
  getViewportXCenter :: 'f
  getViewportYCenter :: 'f
  getViewportZCenter :: 'f
  getViewportXScale :: 'f
  getViewportYScale :: 'f
  getViewportZScale :: 'f
  getOffsetX16 :: 'f
  getOffsetY16 :: 'f
  worldMatrix :: "'f list"
  viewMatrix :: "'f list"
  projMatrix :: "'f list"

text \<open>\<^verbatim>\<open>VertexDecoder\<close>: the vertex size and the offset of the position in a vertex, in bytes.\<close>

record VertexDecoder =
  VertexSize :: int
  posoff :: int

text \<open>\<^verbatim>\<open>vertexData\<close>: the value at a byte offset from the pointer, read as an \<^verbatim>\<open>s8\<close>, as an
  \<^verbatim>\<open>s16\<close> or as a \<^verbatim>\<open>float\<close>.\<close>

record 'f vertex_memory =
  s8_at :: "int \<Rightarrow> 8 word"
  s16_at :: "int \<Rightarrow> 16 word"
  f32_at :: "int \<Rightarrow> 'f"

text \<open>\<^verbatim>\<open>bufferData\<close>, the scratch buffer of the caller, as the function finds it: the float
  array \<^verbatim>\<open>verts\<close> at its start and the array \<^verbatim>\<open>screenVerts\<close> at byte offset 65536 * 8. The
  two are taken as disjoint, which they are while \<^verbatim>\<open>count * 12\<close> does not exceed that
  offset.\<close>

record 'f scratch =
  verts :: "int \<Rightarrow> 'f"
  screenVerts :: "int \<Rightarrow> ScreenVert"

text \<open>The float helpers of other files of the repository (\<^verbatim>\<open>Vec3ByMatrix43\<close>,
  \<^verbatim>\<open>Vec3ByMatrix44\<close>, \<^verbatim>\<open>clamp_value\<close>), taken as parameters. A matrix is the list of its
  entries.\<close>

record 'f helpers =
  Vec3ByMatrix43 :: "'f \<times> 'f \<times> 'f \<Rightarrow> 'f list \<Rightarrow> 'f \<times> 'f \<times> 'f"
  Vec3ByMatrix44 :: "'f \<times> 'f \<times> 'f \<Rightarrow> 'f list \<Rightarrow> 'f \<times> 'f \<times> 'f \<times> 'f"
  clamp_value :: "'f \<Rightarrow> 'f \<Rightarrow> 'f \<Rightarrow> 'f"

text \<open>The conversion of an integer to \<^verbatim>\<open>bool\<close>, and C++ division of a non-negative or
  negative \<^verbatim>\<open>int\<close> by a positive one (it truncates towards zero).\<close>

definition truthy :: "16 word \<Rightarrow> bool" where
  "truthy w = (w \<noteq> 0)"

definition cdiv :: "int \<Rightarrow> int \<Rightarrow> int" where
  "cdiv a b = (if 0 \<le> a then a div b else - ((- a) div b))"

subsection \<open>Position extraction\<close>

text \<open>The three decoding loops over \<^verbatim>\<open>i\<close>; the inner loop over \<^verbatim>\<open>j = 0, 1, 2\<close> is written
  out.\<close>

function decode_8bit ::
  "'f float_ops \<Rightarrow> 'f vertex_memory \<Rightarrow> int \<Rightarrow> int \<Rightarrow> 'f \<Rightarrow> int \<Rightarrow> int \<Rightarrow> (int \<Rightarrow> 'f)
     \<Rightarrow> (int \<Rightarrow> 'f)" where
  "decode_8bit F vertexData vertexStride offset factor count i vs =
     (if i < count
      then let dat = i * vertexStride + offset
           in decode_8bit F vertexData vertexStride offset factor count (i + 1)
                (vs(i * 3 + 0 := fmul F (from_int F (sint (s8_at vertexData (dat + 0)))) factor,
                    i * 3 + 1 := fmul F (from_int F (sint (s8_at vertexData (dat + 1)))) factor,
                    i * 3 + 2 := fmul F (from_int F (sint (s8_at vertexData (dat + 2)))) factor))
      else vs)"
  by pat_completeness auto
termination
  by (relation "measure (\<lambda>(F, vd, st, off, fac, count, i, vs). nat (count - i))") auto

declare decode_8bit.simps [simp del]

function decode_16bit ::
  "'f float_ops \<Rightarrow> 'f vertex_memory \<Rightarrow> int \<Rightarrow> int \<Rightarrow> 'f \<Rightarrow> int \<Rightarrow> int \<Rightarrow> (int \<Rightarrow> 'f)
     \<Rightarrow> (int \<Rightarrow> 'f)" where
  "decode_16bit F vertexData vertexStride offset factor count i vs =
     (if i < count
      then let dat = i * vertexStride + offset
           in decode_16bit F vertexData vertexStride offset factor count (i + 1)
                (vs(i * 3 + 0 := fmul F (from_int F (sint (s16_at vertexData (dat + 0)))) factor,
                    i * 3 + 1 := fmul F (from_int F (sint (s16_at vertexData (dat + 2)))) factor,
                    i * 3 + 2 := fmul F (from_int F (sint (s16_at vertexData (dat + 4)))) factor))
      else vs)"
  by pat_completeness auto
termination
  by (relation "measure (\<lambda>(F, vd, st, off, fac, count, i, vs). nat (count - i))") auto

declare decode_16bit.simps [simp del]

function decode_float ::
  "'f vertex_memory \<Rightarrow> int \<Rightarrow> int \<Rightarrow> int \<Rightarrow> int \<Rightarrow> (int \<Rightarrow> 'f) \<Rightarrow> (int \<Rightarrow> 'f)" where
  "decode_float vertexData vertexStride offset count i vs =
     (if i < count
      then let src = vertexStride * i + offset
           in decode_float vertexData vertexStride offset count (i + 1)
                (vs(i * 3 + 0 := f32_at vertexData (src + 0),
                    i * 3 + 1 := f32_at vertexData (src + 4),
                    i * 3 + 2 := f32_at vertexData (src + 8)))
      else vs)"
  by pat_completeness auto
termination
  by (relation "measure (\<lambda>(vd, st, off, count, i, vs). nat (count - i))") auto

declare decode_float.simps [simp del]

text \<open>The \<^verbatim>\<open>switch (vertTypeID & GE_VTYPE_POS_MASK)\<close>; it has no \<^verbatim>\<open>default\<close>, so any other
  value leaves the float array as the caller passed it.\<close>

definition decode_positions ::
  "'f float_ops \<Rightarrow> vtype_consts \<Rightarrow> 'f vertex_memory \<Rightarrow> VertexDecoder \<Rightarrow> 32 word \<Rightarrow> int
     \<Rightarrow> (int \<Rightarrow> 'f) \<Rightarrow> (int \<Rightarrow> 'f)" where
  "decode_positions F K vertexData dec vertTypeID count vs =
     (let isThroughMode = ((vertTypeID AND GE_VTYPE_THROUGH_MASK K) \<noteq> 0);
          vertexStride = VertexSize dec;
          offset = posoff dec;
          factor = from_int F 1;
          pos = vertTypeID AND GE_VTYPE_POS_MASK K
      in if pos = GE_VTYPE_POS_8BIT K then
           decode_8bit F vertexData vertexStride offset
             (if \<not> isThroughMode then fdiv F (from_int F 1) (from_int F 128) else factor)
             count 0 vs
         else if pos = GE_VTYPE_POS_16BIT K then
           decode_16bit F vertexData vertexStride offset
             (if \<not> isThroughMode then fdiv F (from_int F 1) (from_int F 32768) else factor)
             count 0 vs
         else if pos = GE_VTYPE_POS_FLOAT K then
           decode_float vertexData vertexStride offset count 0 vs
         else vs)"

subsection \<open>Transform\<close>

text \<open>The clip-space coordinates \<^verbatim>\<open>proj[0..3]\<close> of vertex \<open>i\<close>, and its \<^verbatim>\<open>w = proj[3]\<close>.\<close>

definition clip_coords ::
  "'f helpers \<Rightarrow> 'f GPUgstate \<Rightarrow> (int \<Rightarrow> 'f) \<Rightarrow> int \<Rightarrow> 'f \<times> 'f \<times> 'f \<times> 'f" where
  "clip_coords H gstate vs i =
     (let world = Vec3ByMatrix43 H (vs (i * 3), vs (i * 3 + 1), vs (i * 3 + 2)) (worldMatrix gstate);
          view = Vec3ByMatrix43 H world (viewMatrix gstate)
      in Vec3ByMatrix44 H view (projMatrix gstate))"

definition clip_w :: "'f helpers \<Rightarrow> 'f GPUgstate \<Rightarrow> (int \<Rightarrow> 'f) \<Rightarrow> int \<Rightarrow> 'f" where
  "clip_w H gstate vs i = (case clip_coords H gstate vs i of (p0, p1, p2, p3) \<Rightarrow> p3)"

text \<open>The body of the transform loop for vertex \<open>i\<close>: the record written to
  \<^verbatim>\<open>screenVerts[i]\<close> (all four fields are assigned) and \<^verbatim>\<open>inFront\<close>.\<close>

definition transform_vertex ::
  "'f float_ops \<Rightarrow> 'f helpers \<Rightarrow> 'f GPUgstate \<Rightarrow> (int \<Rightarrow> 'f) \<Rightarrow> int \<Rightarrow> ScreenVert \<times> bool" where
  "transform_vertex F H gstate vs i =
     (case clip_coords H gstate vs i of (p0, p1, p2, p3) \<Rightarrow>
        let w = p3;
            inFront = flt F (from_int F 0) w;
            p0 = fdiv F p0 w;
            p1 = fdiv F p1 w;
            p2 = fdiv F p2 w;
            screen0 = fsub F (fmul F (fadd F (fmul F p0 (getViewportXScale gstate))
                                             (getViewportXCenter gstate)) (from_int F 16))
                        (getOffsetX16 gstate);
            screen1 = fsub F (fmul F (fadd F (fmul F p1 (getViewportYScale gstate))
                                             (getViewportYCenter gstate)) (from_int F 16))
                        (getOffsetY16 gstate);
            screen2 = fadd F (fmul F p2 (getViewportZScale gstate)) (getViewportZCenter gstate);
            screen2 = (if flt F screen2 (from_int F 0) then from_int F 0 else screen2);
            screen2 = (if fle F (from_int F 65535) screen2 then from_int F 65535 else screen2);
            sixteenth = fdiv F (from_int F 1) (from_int F 16)
        in (\<lparr> vx = to_int F (fmul F screen0 sixteenth),
              vy = to_int F (fmul F screen1 sixteenth),
              vz = to_u16 F screen2,
              behind = (if inFront then 0 else 1) \<rparr>,
            inFront))"

text \<open>The transform loop: the array \<^verbatim>\<open>screenVerts\<close> and the flag \<^verbatim>\<open>allBehind\<close>.\<close>

function transform_loop ::
  "'f float_ops \<Rightarrow> 'f helpers \<Rightarrow> 'f GPUgstate \<Rightarrow> (int \<Rightarrow> 'f) \<Rightarrow> int \<Rightarrow> int
     \<Rightarrow> (int \<Rightarrow> ScreenVert) \<Rightarrow> bool \<Rightarrow> (int \<Rightarrow> ScreenVert) \<times> bool" where
  "transform_loop F H gstate vs count i sv allBehind =
     (if i < count
      then case transform_vertex F H gstate vs i of (v, inFront) \<Rightarrow>
             transform_loop F H gstate vs count (i + 1) (sv(i := v))
               (if inFront then False else allBehind)
      else (sv, allBehind))"
  by pat_completeness auto
termination
  by (relation "measure (\<lambda>(F, H, g, vs, count, i, sv, ab). nat (count - i))") auto

declare transform_loop.simps [simp del]

text \<open>The loop of the through mode. It assigns \<^verbatim>\<open>x\<close>, \<^verbatim>\<open>y\<close> and \<^verbatim>\<open>z\<close> of \<^verbatim>\<open>screenVerts[i]\<close>;
  \<^verbatim>\<open>behind\<close> keeps what the scratch buffer held.\<close>

function through_loop ::
  "'f float_ops \<Rightarrow> 'f helpers \<Rightarrow> (int \<Rightarrow> 'f) \<Rightarrow> int \<Rightarrow> int \<Rightarrow> (int \<Rightarrow> ScreenVert)
     \<Rightarrow> (int \<Rightarrow> ScreenVert)" where
  "through_loop F H vs count i sv =
     (if i < count
      then through_loop F H vs count (i + 1)
             (sv(i := (sv i)\<lparr> vx := to_int F (vs (i * 3 + 0)),
                              vy := to_int F (vs (i * 3 + 1)),
                              vz := to_u16 F (clamp_value H (vs (i * 3 + 2))
                                               (from_int F 0) (from_int F 65535)) \<rparr>))
      else sv)"
  by pat_completeness auto
termination
  by (relation "measure (\<lambda>(F, H, vs, count, i, sv). nat (count - i))") auto

declare through_loop.simps [simp del]

subsection \<open>Stitching\<close>

text \<open>\<^verbatim>\<open>case GE_PRIM_RECTANGLES\<close>: \<^verbatim>\<open>for (int i = 0; i < count / 2; i++)\<close>, with \<open>n\<close> the bound
  \<^verbatim>\<open>count / 2\<close>.\<close>

function prim_rectangles ::
  "arch \<Rightarrow> int \<Rightarrow> (int \<Rightarrow> ScreenVert) \<Rightarrow> GEComparison \<Rightarrow> int \<Rightarrow> int \<Rightarrow> depth_buffer
     \<Rightarrow> depth_buffer" where
  "prim_rectangles a depthStride sv compareMode n i depth =
     (if i < n
      then let z = vz (sv (i + 1))
           in prim_rectangles a depthStride sv compareMode n (i + 1)
                (DepthRasterRect a depth depthStride (vx (sv i)) (vy (sv i))
                   (vx (sv (i + 1))) (vy (sv (i + 1))) z compareMode)
      else depth)"
  by pat_completeness auto
termination
  by (relation "measure (\<lambda>(a, st, sv, m, n, i, d). nat (n - i))") auto

declare prim_rectangles.simps [simp del]

text \<open>\<^verbatim>\<open>case GE_PRIM_TRIANGLES\<close>: \<^verbatim>\<open>for (int i = 0; i < count / 3; i++)\<close>, with \<open>n\<close> the bound
  \<^verbatim>\<open>count / 3\<close>.\<close>

function prim_triangles ::
  "'f float_ops \<Rightarrow> int \<Rightarrow> int \<Rightarrow> int \<Rightarrow> int \<Rightarrow> int \<Rightarrow> (int \<Rightarrow> ScreenVert) \<Rightarrow> GEComparison
     \<Rightarrow> int \<Rightarrow> int \<Rightarrow> depth_buffer \<Rightarrow> depth_buffer" where
  "prim_triangles F depthStride x1 y1 x2 y2 sv compareMode n i depth =
     (if i < n
      then if truthy (behind (sv (i * 3))) \<or> truthy (behind (sv (i * 3 + 1)))
              \<or> truthy (behind (sv (i * 3 + 2)))
           then prim_triangles F depthStride x1 y1 x2 y2 sv compareMode n (i + 1) depth
           else prim_triangles F depthStride x1 y1 x2 y2 sv compareMode n (i + 1)
                  (DepthRasterTriangle F depth depthStride x1 y1 x2 y2
                     (sv (i * 3)) (sv (i * 3 + 1)) (sv (i * 3 + 2)) compareMode)
      else depth)"
  by pat_completeness auto
termination
  by (relation "measure (\<lambda>(F, st, x1, y1, x2, y2, sv, m, n, i, d). nat (n - i))") auto

declare prim_triangles.simps [simp del]

text \<open>\<^verbatim>\<open>case GE_PRIM_TRIANGLE_STRIP\<close>: \<^verbatim>\<open>for (int i = 0; i < count - 2; i++)\<close> with the
  variable \<^verbatim>\<open>wind\<close>.\<close>

function prim_triangle_strip ::
  "'f float_ops \<Rightarrow> int \<Rightarrow> int \<Rightarrow> int \<Rightarrow> int \<Rightarrow> int \<Rightarrow> (int \<Rightarrow> ScreenVert) \<Rightarrow> GEComparison
     \<Rightarrow> int \<Rightarrow> int \<Rightarrow> int \<Rightarrow> depth_buffer \<Rightarrow> depth_buffer" where
  "prim_triangle_strip F depthStride x1 y1 x2 y2 sv compareMode count i wind depth =
     (if i < count - 2
      then let i0 = i;
               i1 = i + wind;
               wind = wind XOR 3;
               i2 = i + wind
           in if truthy (behind (sv i0)) \<or> truthy (behind (sv i1)) \<or> truthy (behind (sv i2))
              then prim_triangle_strip F depthStride x1 y1 x2 y2 sv compareMode count (i + 1)
                     wind depth
              else prim_triangle_strip F depthStride x1 y1 x2 y2 sv compareMode count (i + 1)
                     wind
                     (DepthRasterTriangle F depth depthStride x1 y1 x2 y2
                        (sv i0) (sv i1) (sv i2) compareMode)
      else depth)"
  by pat_completeness auto
termination
  by (relation "measure (\<lambda>(F, st, x1, y1, x2, y2, sv, m, count, i, w, d). nat (count - 2 - i))")
    auto

declare prim_triangle_strip.simps [simp del]

text \<open>The final \<^verbatim>\<open>switch (prim)\<close>.\<close>

definition stitch ::
  "arch \<Rightarrow> 'f float_ops \<Rightarrow> depth_buffer \<Rightarrow> int \<Rightarrow> int \<Rightarrow> int \<Rightarrow> int \<Rightarrow> int
     \<Rightarrow> (int \<Rightarrow> ScreenVert) \<Rightarrow> GEPrimitiveType \<Rightarrow> int \<Rightarrow> GEComparison \<Rightarrow> depth_buffer" where
  "stitch a F depth depthStride x1 y1 x2 y2 sv prim count compareMode =
     (case prim of
        GE_PRIM_RECTANGLES \<Rightarrow>
          prim_rectangles a depthStride sv compareMode (cdiv count 2) 0 depth
      | GE_PRIM_TRIANGLES \<Rightarrow>
          prim_triangles F depthStride x1 y1 x2 y2 sv compareMode (cdiv count 3) 0 depth
      | GE_PRIM_TRIANGLE_STRIP \<Rightarrow>
          prim_triangle_strip F depthStride x1 y1 x2 y2 sv compareMode count 0 2 depth
      | _ \<Rightarrow> depth)"

subsection \<open>The function\<close>

text \<open>\<^verbatim>\<open>DepthRasterPrim\<close> from the first \<^verbatim>\<open>switch (prim)\<close> on, with the comparison mode the
  gate has chosen.\<close>

definition draw_prim ::
  "arch \<Rightarrow> 'f float_ops \<Rightarrow> 'f helpers \<Rightarrow> vtype_consts \<Rightarrow> 'f GPUgstate \<Rightarrow> depth_buffer \<Rightarrow> int
     \<Rightarrow> int \<Rightarrow> int \<Rightarrow> int \<Rightarrow> int \<Rightarrow> 'f scratch \<Rightarrow> 'f vertex_memory \<Rightarrow> GEPrimitiveType \<Rightarrow> int
     \<Rightarrow> VertexDecoder \<Rightarrow> 32 word \<Rightarrow> GEComparison \<Rightarrow> depth_buffer" where
  "draw_prim a F H K gstate depth depthStride x1 y1 x2 y2 bufferData vertexData prim count dec
     vertTypeID compareMode =
     (case prim of
        GE_PRIM_INVALID \<Rightarrow> depth
      | GE_PRIM_KEEP_PREVIOUS \<Rightarrow> depth
      | GE_PRIM_LINES \<Rightarrow> depth
      | GE_PRIM_LINE_STRIP \<Rightarrow> depth
      | GE_PRIM_POINTS \<Rightarrow> depth
      | _ \<Rightarrow>
        if (vertTypeID AND (GE_VTYPE_IDX_MASK K OR GE_VTYPE_WEIGHT_MASK K)) \<noteq> 0 then depth
        else
          let cullEnabled = False;
              cullCCW = False;
              vs = decode_positions F K vertexData dec vertTypeID count (verts bufferData)
          in if \<not> ((vertTypeID AND GE_VTYPE_THROUGH_MASK K) \<noteq> 0) then
               let cullEnabled = isCullEnabled gstate
               in case transform_loop F H gstate vs count 0 (screenVerts bufferData) True of
                    (sv, allBehind) \<Rightarrow>
                      if allBehind then depth
                      else stitch a F depth depthStride x1 y1 x2 y2 sv prim count compareMode
             else
               stitch a F depth depthStride x1 y1 x2 y2
                 (through_loop F H vs count 0 (screenVerts bufferData)) prim count compareMode)"

text \<open>\<^verbatim>\<open>DepthRasterPrim\<close>. The parameters \<open>a\<close>, \<open>F\<close>, \<open>H\<close>, \<open>K\<close> and \<open>gstate\<close> are the build, the
  float operations, the helpers, the constants and the global state; the others are those
  of the source, in its order. \<^verbatim>\<open>indexData\<close> is never read and left out. The result is the
  depth buffer after the call.\<close>

definition DepthRasterPrim ::
  "arch \<Rightarrow> 'f float_ops \<Rightarrow> 'f helpers \<Rightarrow> vtype_consts \<Rightarrow> 'f GPUgstate \<Rightarrow> depth_buffer \<Rightarrow> int
     \<Rightarrow> int \<Rightarrow> int \<Rightarrow> int \<Rightarrow> int \<Rightarrow> 'f scratch \<Rightarrow> 'f vertex_memory \<Rightarrow> GEPrimitiveType \<Rightarrow> int
     \<Rightarrow> VertexDecoder \<Rightarrow> 32 word \<Rightarrow> bool \<Rightarrow> depth_buffer" where
  "DepthRasterPrim a F H K gstate depth depthStride x1 y1 x2 y2 bufferData vertexData prim count
     dec vertTypeID clockwise =
     (let compareMode = getDepthTestFunction gstate
      in if isModeClear gstate then
           if \<not> isClearModeDepthMask gstate then depth
           else draw_prim a F H K gstate depth depthStride x1 y1 x2 y2 bufferData vertexData
                  prim count dec vertTypeID GE_COMP_ALWAYS
         else if \<not> isDepthTestEnabled gstate then depth
         else if \<not> isDepthWriteEnabled gstate then depth
         else draw_prim a F H K gstate depth depthStride x1 y1 x2 y2 bufferData vertexData
                prim count dec vertTypeID compareMode)"

section \<open>Exact arithmetic and example inputs\<close>


text \<open>An instance of the helpers in exact arithmetic, for the examples: a vector times a
  matrix stored row by row with the translation in the last row, and clamping.\<close>

definition exact_helpers :: "real helpers" where
  "exact_helpers =
     \<lparr> Vec3ByMatrix43 = (\<lambda>(a, b, c) m.
         (a * m ! 0 + b * m ! 3 + c * m ! 6 + m ! 9,
          a * m ! 1 + b * m ! 4 + c * m ! 7 + m ! 10,
          a * m ! 2 + b * m ! 5 + c * m ! 8 + m ! 11)),
       Vec3ByMatrix44 = (\<lambda>(a, b, c) m.
         (a * m ! 0 + b * m ! 4 + c * m ! 8 + m ! 12,
          a * m ! 1 + b * m ! 5 + c * m ! 9 + m ! 13,
          a * m ! 2 + b * m ! 6 + c * m ! 10 + m ! 14,
          a * m ! 3 + b * m ! 7 + c * m ! 11 + m ! 15)),
       clamp_value = (\<lambda>v lo hi. if hi < v then hi else if v < lo then lo else v) \<rparr>"

text \<open>The three vertices (0,0), (4,0), (0,4) with depths 0, 0, 400.\<close>

definition ex_a :: ScreenVert where
  "ex_a = \<lparr>vx = 0, vy = 0, vz = 0, behind = 0\<rparr>"

definition ex_b :: ScreenVert where
  "ex_b = \<lparr>vx = 4, vy = 0, vz = 0, behind = 0\<rparr>"

definition ex_c :: ScreenVert where
  "ex_c = \<lparr>vx = 0, vy = 4, vz = 400, behind = 0\<rparr>"

text \<open>The loop variables at pixel (1,1) and at pixel (1,2) of the triangle
  \<open>ex_a\<close>, \<open>ex_c\<close>, \<open>ex_b\<close> in a buffer of stride 8.\<close>

definition ex_p11 :: pixel where
  "ex_p11 = \<lparr>px_r = 1, px_c = 1, px_idx = 9, px_alpha = 8, px_beta = 4, px_gamma = 4\<rparr>"

definition ex_p21 :: pixel where
  "ex_p21 = \<lparr>px_r = 2, px_c = 1, px_idx = 17, px_alpha = 4, px_beta = 4, px_gamma = 8\<rparr>"

text \<open>Vertex memory holding the given bytes from offset 0 on, a decoder for vertices of
  three position bytes, and the vertex types "8-bit position" without and with through
  mode.\<close>

definition bytes_memory :: "8 word list \<Rightarrow> real vertex_memory" where
  "bytes_memory bs =
     \<lparr> s8_at = (\<lambda>a. if 0 \<le> a \<and> a < int (length bs) then bs ! nat a else 0),
       s16_at = (\<lambda>a. 0),
       f32_at = (\<lambda>a. 0) \<rparr>"

definition packed3 :: VertexDecoder where
  "packed3 = \<lparr> VertexSize = 3, posoff = 0 \<rparr>"

definition pos_8bit :: "32 word" where
  "pos_8bit = 0x80"

definition through_8bit :: "32 word" where
  "through_8bit = 0x800080"

text \<open>A state in clear mode with the depth mask set. Its projection matrix gives every
  vertex \<open>w = -1\<close>.\<close>

definition clear_gstate :: "real GPUgstate" where
  "clear_gstate =
     \<lparr> getDepthTestFunction = GE_COMP_NEVER, isModeClear = True, isClearModeDepthMask = True,
       isDepthTestEnabled = False, isDepthWriteEnabled = False, isCullEnabled = False,
       getCullMode = 0,
       getViewportXCenter = 0, getViewportYCenter = 0, getViewportZCenter = 0,
       getViewportXScale = 1, getViewportYScale = 1, getViewportZScale = 1,
       getOffsetX16 = 0, getOffsetY16 = 0,
       worldMatrix = [1, 0, 0, 0, 1, 0, 0, 0, 1, 0, 0, 0],
       viewMatrix = [1, 0, 0, 0, 1, 0, 0, 0, 1, 0, 0, 0],
       projMatrix = [1, 0, 0, 0, 0, 1, 0, 0, 0, 0, 1, 0, 0, 0, 0, - 1] \<rparr>"

text \<open>A scratch buffer whose \<^verbatim>\<open>behind\<close> fields all hold \<open>b\<close>, as an earlier draw may have
  left them.\<close>

definition scratch_with :: "16 word \<Rightarrow> real scratch" where
  "scratch_with b =
     \<lparr> verts = (\<lambda>i. 0), screenVerts = (\<lambda>i. \<lparr>vx = 0, vy = 0, vz = 0, behind = b\<rparr>) \<rparr>"

text \<open>The position bytes of the triangle (0,0), (0,4), (4,0) with depth 5 at each vertex,
  and of the four rectangle corners (0,0), (8,1), (0,2), (8,3) with depths 3, 3, 7, 9.\<close>

definition tri_bytes :: "8 word list" where
  "tri_bytes = [0, 0, 5, 0, 4, 5, 4, 0, 5]"

definition rect_bytes :: "8 word list" where
  "rect_bytes = [0, 0, 3, 8, 1, 3, 0, 2, 7, 8, 3, 9]"

text \<open>Three vertices at the corners of the range of 16-bit positions, for which the
  products of the triangle setup leave the range of a 32-bit \<^verbatim>\<open>int\<close>, and the loop variables
  at pixel (0,0) of the triangle \<open>ov_a\<close>, \<open>ov_b\<close>, \<open>ov_c\<close>.\<close>

definition ov_a :: ScreenVert where
  "ov_a = \<lparr>vx = - 32768, vy = - 32768, vz = 5, behind = 0\<rparr>"

definition ov_b :: ScreenVert where
  "ov_b = \<lparr>vx = 32767, vy = 32767, vz = 5, behind = 0\<rparr>"

definition ov_c :: ScreenVert where
  "ov_c = \<lparr>vx = - 32768, vy = 32767, vz = 5, behind = 0\<rparr>"


text \<open>Floats as the real numbers and one NaN (\<open>None\<close>): an operation with a NaN operand gives
  NaN and every comparison with a NaN is false, as in IEEE arithmetic. Division by zero
  gives NaN here, and the conversion of a NaN to an integer, which C++ leaves undefined,
  gives what the x86 conversion gives; the examples use neither.\<close>

definition nan_lift :: "(real \<Rightarrow> real \<Rightarrow> real) \<Rightarrow> real option \<Rightarrow> real option \<Rightarrow> real option" where
  "nan_lift f a b = (case a of None \<Rightarrow> None | Some x \<Rightarrow> (case b of None \<Rightarrow> None | Some y \<Rightarrow> Some (f x y)))"

definition nan_div :: "real option \<Rightarrow> real option \<Rightarrow> real option" where
  "nan_div a b =
     (case a of None \<Rightarrow> None
      | Some x \<Rightarrow> (case b of None \<Rightarrow> None | Some y \<Rightarrow> if y = 0 then None else Some (x / y)))"

definition nan_cmp :: "(real \<Rightarrow> real \<Rightarrow> bool) \<Rightarrow> real option \<Rightarrow> real option \<Rightarrow> bool" where
  "nan_cmp f a b = (case a of None \<Rightarrow> False | Some x \<Rightarrow> (case b of None \<Rightarrow> False | Some y \<Rightarrow> f x y))"

definition nan_ops :: "real option float_ops" where
  "nan_ops =
     \<lparr> from_int = (\<lambda>k. Some (real_of_int k)),
       to_int = (\<lambda>v. case v of None \<Rightarrow> - 2147483648 | Some x \<Rightarrow> trunc0 x),
       to_u16 = (\<lambda>v. case v of None \<Rightarrow> 0 | Some x \<Rightarrow> word_of_int (trunc0 x)),
       fadd = nan_lift (+), fsub = nan_lift (-), fmul = nan_lift (*), fdiv = nan_div,
       flt = nan_cmp (<), fle = nan_cmp (\<le>), feq = nan_cmp (=) \<rparr>"

text \<open>The helpers over these floats: a vector times a matrix as in \<open>exact_helpers\<close>.\<close>

definition nan_helpers :: "real option helpers" where
  "nan_helpers =
     \<lparr> Vec3ByMatrix43 = (\<lambda>(a, b, c) m.
         (nan_lift (+) (nan_lift (+) (nan_lift (+) (nan_lift (*) a (m ! 0)) (nan_lift (*) b (m ! 3)))
            (nan_lift (*) c (m ! 6))) (m ! 9),
          nan_lift (+) (nan_lift (+) (nan_lift (+) (nan_lift (*) a (m ! 1)) (nan_lift (*) b (m ! 4)))
            (nan_lift (*) c (m ! 7))) (m ! 10),
          nan_lift (+) (nan_lift (+) (nan_lift (+) (nan_lift (*) a (m ! 2)) (nan_lift (*) b (m ! 5)))
            (nan_lift (*) c (m ! 8))) (m ! 11))),
       Vec3ByMatrix44 = (\<lambda>(a, b, c) m.
         (nan_lift (+) (nan_lift (+) (nan_lift (+) (nan_lift (*) a (m ! 0)) (nan_lift (*) b (m ! 4)))
            (nan_lift (*) c (m ! 8))) (m ! 12),
          nan_lift (+) (nan_lift (+) (nan_lift (+) (nan_lift (*) a (m ! 1)) (nan_lift (*) b (m ! 5)))
            (nan_lift (*) c (m ! 9))) (m ! 13),
          nan_lift (+) (nan_lift (+) (nan_lift (+) (nan_lift (*) a (m ! 2)) (nan_lift (*) b (m ! 6)))
            (nan_lift (*) c (m ! 10))) (m ! 14),
          nan_lift (+) (nan_lift (+) (nan_lift (+) (nan_lift (*) a (m ! 3)) (nan_lift (*) b (m ! 7)))
            (nan_lift (*) c (m ! 11))) (m ! 15))),
       clamp_value = (\<lambda>v lo hi. if nan_cmp (<) hi v then hi else if nan_cmp (<) v lo then lo
                                else v) \<rparr>"

text \<open>A draw of one vertex with float position whose \<open>x\<close> is NaN, under identity matrices:
  the vertex memory, the decoder, the vertex type "float position", the state and the
  scratch buffer.\<close>

definition nan_memory :: "real option vertex_memory" where
  "nan_memory =
     \<lparr> s8_at = (\<lambda>a. 0), s16_at = (\<lambda>a. 0), f32_at = (\<lambda>a. if a = 0 then None else Some 1) \<rparr>"

definition packed12 :: VertexDecoder where
  "packed12 = \<lparr> VertexSize = 12, posoff = 0 \<rparr>"

definition pos_float :: "32 word" where
  "pos_float = 0x180"

definition nan_gstate :: "real option GPUgstate" where
  "nan_gstate =
     \<lparr> getDepthTestFunction = GE_COMP_LESS, isModeClear = False, isClearModeDepthMask = False,
       isDepthTestEnabled = True, isDepthWriteEnabled = True, isCullEnabled = False,
       getCullMode = 0,
       getViewportXCenter = Some 0, getViewportYCenter = Some 0, getViewportZCenter = Some 0,
       getViewportXScale = Some 1, getViewportYScale = Some 1, getViewportZScale = Some 1,
       getOffsetX16 = Some 0, getOffsetY16 = Some 0,
       worldMatrix = map Some [1, 0, 0, 0, 1, 0, 0, 0, 1, 0, 0, 0],
       viewMatrix = map Some [1, 0, 0, 0, 1, 0, 0, 0, 1, 0, 0, 0],
       projMatrix = map Some [1, 0, 0, 0, 0, 1, 0, 0, 0, 0, 1, 0, 0, 0, 0, 1] \<rparr>"

definition nan_scratch :: "real option scratch" where
  "nan_scratch =
     \<lparr> verts = (\<lambda>i. Some 0), screenVerts = (\<lambda>i. \<lparr>vx = 0, vy = 0, vz = 0, behind = 0\<rparr>) \<rparr>"

section \<open>Theorems\<close>

subsection \<open>Evaluation rules for concrete inputs\<close>

lemmas rect_eval =
  DepthRasterRect_def rect_rows.simps rect_row_def store_loop.simps memset0_def store_x8_def

lemmas tri_eval =
  DepthRasterTriangle_def triangle_setup_def Let_def tri_pixels_def row_pixels.simps
  col_pixels.simps pixel_body_def inside_def interp_depth_def depth_weights_def depth_test_def
  smax_def smin_def exact_ops_def trunc0_def ex_a_def ex_b_def ex_c_def

subsection \<open>Lane multiply\<close>

lemma ucast_mul_epu32_lane: "(ucast (mul_epu32_lane a b) :: 32 word) = a * b"
  unfolding mul_epu32_lane_def
  by transfer (simp add: take_bit_mult)

lemma shuffle_F5: "mm_shuffle_epi32 v 0xF5 = M128i (lane1 v) (lane1 v) (lane3 v) (lane3 v)"
  by (simp add: mm_shuffle_epi32_def lane_def)

text \<open>
  \<^bold>\<open>C8.\<close> For every pair of four-lane vectors, \<^verbatim>\<open>operator *\<close> returns in each lane the
  product of the corresponding input lanes reduced modulo \<open>2^32\<close> (the product of 32-bit
  words): on the SSE2 build, which multiplies lanes 0 and 2 and, after a shuffle, lanes 1
  and 3 as unsigned 32x32-to-64 products and reassembles the low halves, and on the NEON
  build with its native multiply.
\<close>

theorem Vec4S32_mul_lanewise:
  "Vec4S32_mul_SSE2 a b =
     M128i (lane0 a * lane0 b) (lane1 a * lane1 b) (lane2 a * lane2 b) (lane3 a * lane3 b)
   \<and> Vec4S32_mul_NEON a b =
     M128i (lane0 a * lane0 b) (lane1 a * lane1 b) (lane2 a * lane2 b) (lane3 a * lane3 b)
   \<and> unat (lane0 (Vec4S32_mul_SSE2 a b)) = (unat (lane0 a) * unat (lane0 b)) mod 2 ^ 32
   \<and> unat (lane1 (Vec4S32_mul_SSE2 a b)) = (unat (lane1 a) * unat (lane1 b)) mod 2 ^ 32
   \<and> unat (lane2 (Vec4S32_mul_SSE2 a b)) = (unat (lane2 a) * unat (lane2 b)) mod 2 ^ 32
   \<and> unat (lane3 (Vec4S32_mul_SSE2 a b)) = (unat (lane3 a) * unat (lane3 b)) mod 2 ^ 32"
proof -
  have sse: "Vec4S32_mul_SSE2 a b =
     M128i (lane0 a * lane0 b) (lane1 a * lane1 b) (lane2 a * lane2 b) (lane3 a * lane3 b)"
    by (simp add: Vec4S32_mul_SSE2_def shuffle_F5 mm_mul_epu32_def mm_unpacklo_epi32_def
        mm_unpackhi_epi32_def mm_unpacklo_epi64_def Let_def ucast_mul_epu32_lane)
  have neon: "Vec4S32_mul_NEON a b =
     M128i (lane0 a * lane0 b) (lane1 a * lane1 b) (lane2 a * lane2 b) (lane3 a * lane3 b)"
    by (simp add: Vec4S32_mul_NEON_def vmulq_s32_def)
  show ?thesis
    unfolding sse neon by (simp add: unat_word_ariths)
qed

subsection \<open>Rectangles\<close>

text \<open>
  \<^bold>\<open>C1.\<close> The claim is that with \<^verbatim>\<open>compareMode = ALWAYS\<close> every cell of the rectangle
  becomes \<^verbatim>\<open>depthValue\<close>. On the rectangle with corners (2,2) and (6,5) and depth value 100
  the function writes no cell, whatever the build, the stride and the buffer: the row is
  four cells wide, the store loop runs only while at least eight cells remain, and there
  is no code for the remainder.
\<close>

theorem DepthRasterRect_narrow_row_unwritten:
  "DepthRasterRect a dest stride 2 2 6 5 100 GE_COMP_ALWAYS = dest"
  by (cases a) (simp_all add: DepthRasterRect_def rect_rows.simps rect_row_def store_loop.simps)

text \<open>With depth value 0 the same rectangle is filled: that path clears the whole row.\<close>

lemma DepthRasterRect_zero_fills:
  "map (DepthRasterRect SSE2 (\<lambda>i. 65535) 16 2 2 6 5 0 GE_COMP_ALWAYS) [33, 34, 37, 38, 69, 85]
     = [65535, 0, 0, 65535, 0, 65535]"
  by (simp add: rect_eval)

text \<open>What the function does write with \<^verbatim>\<open>GE_COMP_ALWAYS\<close> on the SSE2 and ARM64 builds:
  in every row of the rectangle the first \<open>covered_width\<close> cells, and no other cell. So
  the rectangle is filled when its width is a multiple of eight or the depth value is
  zero.\<close>

lemma store_loop_closed:
  "store_loop dest ptr w v j = (if ptr \<le> j \<and> j < ptr + 8 * (w div 8) then v else dest j)"
proof (induction dest ptr w v rule: store_loop.induct)
  case (1 dest ptr w v)
  show ?case
  proof (cases "w \<ge> 8")
    case False
    then have "w div 8 \<le> 0" by simp
    with False show ?thesis by (subst store_loop.simps) auto
  next
    case True
    have d: "8 * (w div 8) = 8 + 8 * ((w - 8) div 8)" by presburger
    from True have nn: "0 \<le> (w - 8) div 8" by simp
    from "1.IH"[OF True] True nn show ?thesis
      by (subst store_loop.simps) (auto simp: store_x8_def d)
  qed
qed

lemma rect_row_closed:
  "rect_row dest stride x1 x2 y v GE_COMP_ALWAYS j =
     (if stride * y + x1 \<le> j \<and> j < stride * y + x1 + covered_width (x2 - x1) v then v
      else dest j)"
  by (auto simp: rect_row_def Let_def covered_width_def store_loop_closed memset0_def)

lemma rect_rows_closed:
  "rect_rows dest stride x1 x2 y y2 v GE_COMP_ALWAYS j =
     (if \<exists>r. y \<le> r \<and> r < y2 \<and> stride * r + x1 \<le> j
            \<and> j < stride * r + x1 + covered_width (x2 - x1) v
      then v else dest j)"
proof (induction dest stride x1 x2 y y2 v "GE_COMP_ALWAYS" arbitrary: j rule: rect_rows.induct)
  case (1 dest stride x1 x2 y y2 v)
  let ?P = "\<lambda>r. stride * r + x1 \<le> j \<and> j < stride * r + x1 + covered_width (x2 - x1) v"
  show ?case
  proof (cases "y < y2")
    case False
    then show ?thesis by (subst rect_rows.simps) auto
  next
    case True
    define E where "E = (\<exists>r. y + 1 \<le> r \<and> r < y2 \<and> ?P r)"
    define Py where "Py = ?P y"
    have ex: "(\<exists>r. y \<le> r \<and> r < y2 \<and> ?P r) = (Py \<or> E)"
    proof
      assume "\<exists>r. y \<le> r \<and> r < y2 \<and> ?P r"
      then obtain r where r: "y \<le> r" "r < y2" "?P r" by blast
      show "Py \<or> E"
      proof (cases "r = y")
        case True
        with r show ?thesis by (simp add: Py_def)
      next
        case False
        with r have "y + 1 \<le> r" by simp
        with r show ?thesis unfolding E_def by blast
      qed
    next
      assume "Py \<or> E"
      then show "\<exists>r. y \<le> r \<and> r < y2 \<and> ?P r"
      proof
        assume Py
        with True show ?thesis unfolding Py_def by blast
      next
        assume E
        then obtain r where "y + 1 \<le> r" "r < y2" "?P r" unfolding E_def by blast
        then have "y \<le> r \<and> r < y2 \<and> ?P r" by simp
        then show ?thesis by blast
      qed
    qed
    have step: "rect_rows dest stride x1 x2 y y2 v GE_COMP_ALWAYS j
        = rect_rows (rect_row dest stride x1 x2 y v GE_COMP_ALWAYS) stride x1 x2 (y + 1) y2 v
            GE_COMP_ALWAYS j"
      using True by (subst rect_rows.simps) simp
    have ih: "rect_rows (rect_row dest stride x1 x2 y v GE_COMP_ALWAYS) stride x1 x2 (y + 1) y2 v
            GE_COMP_ALWAYS j
        = (if E then v else rect_row dest stride x1 x2 y v GE_COMP_ALWAYS j)"
      unfolding E_def by (rule "1.hyps"[OF True])
    have row: "rect_row dest stride x1 x2 y v GE_COMP_ALWAYS j = (if Py then v else dest j)"
      unfolding Py_def by (rule rect_row_closed)
    show ?thesis unfolding step ih row ex by simp
  qed
qed

lemma DepthRasterRect_closed:
  assumes "a = SSE2 \<or> a = ARM64_NEON" "x1 < x2" "y1 < y2"
  shows "DepthRasterRect a dest stride x1 y1 x2 y2 v GE_COMP_ALWAYS j =
     (if \<exists>r. y1 \<le> r \<and> r < y2 \<and> stride * r + x1 \<le> j
            \<and> j < stride * r + x1 + covered_width (x2 - x1) v
      then v else dest j)"
  using assms by (auto simp: DepthRasterRect_def rect_rows_closed)

subsection \<open>Triangles: the pixels the loops visit\<close>

lemma sint_inject32: "sint (a :: 32 word) = sint (b :: 32 word) \<longleftrightarrow> a = b"
  by (auto intro: signed_word_eqI)

lemma col_pixels_closed:
  "p \<in> set (col_pixels t r c idx a b g) \<Longrightarrow>
     px_r p = r \<and> sint c \<le> sint (px_c p) \<and> sint (px_c p) < sint (endX t)
     \<and> px_idx p = idx + (px_c p - c)
     \<and> px_alpha p = a + (px_c p - c) * A0 t
     \<and> px_beta p = b + (px_c p - c) * A1 t
     \<and> px_gamma p = g + (px_c p - c) * A2 t"
proof (induction t r c idx a b g rule: col_pixels.induct)
  case (1 t r c idx a b g)
  show ?case
  proof (cases "sint c < sint (endX t)")
    case False
    with "1.prems" show ?thesis by (simp add: col_pixels.simps)
  next
    case True
    from "1.prems" True
    consider "p = \<lparr>px_r = r, px_c = c, px_idx = idx, px_alpha = a, px_beta = b, px_gamma = g\<rparr>"
      | "p \<in> set (col_pixels t r (c + 1) (idx + 1) (a + A0 t) (b + A1 t) (g + A2 t))"
      by (subst (asm) col_pixels.simps) auto
    then show ?thesis
    proof cases
      case 1
      with True show ?thesis by simp
    next
      case 2
      from "1.IH"[OF True 2] sint_succ[OF True] show ?thesis by (simp add: algebra_simps)
    qed
  qed
qed

lemma row_pixels_closed:
  "p \<in> set (row_pixels t stride r rowIdx a b g) \<Longrightarrow>
     sint r \<le> sint (px_r p) \<and> sint (px_r p) < sint (endY t)
     \<and> sint (startX t) \<le> sint (px_c p) \<and> sint (px_c p) < sint (endX t)
     \<and> px_idx p = rowIdx + (px_r p - r) * stride + (px_c p - startX t)
     \<and> px_alpha p = a + (px_r p - r) * B0 t + (px_c p - startX t) * A0 t
     \<and> px_beta p = b + (px_r p - r) * B1 t + (px_c p - startX t) * A1 t
     \<and> px_gamma p = g + (px_r p - r) * B2 t + (px_c p - startX t) * A2 t"
proof (induction t stride r rowIdx a b g rule: row_pixels.induct)
  case (1 t stride r rowIdx a b g)
  show ?case
  proof (cases "sint r < sint (endY t)")
    case False
    with "1.prems" show ?thesis by (simp add: row_pixels.simps)
  next
    case True
    from "1.prems" True
    consider "p \<in> set (col_pixels t r (startX t) rowIdx a b g)"
      | "p \<in> set (row_pixels t stride (r + 1) (rowIdx + stride) (a + B0 t) (b + B1 t) (g + B2 t))"
      by (subst (asm) row_pixels.simps) auto
    then show ?thesis
    proof cases
      case 1
      from col_pixels_closed[OF 1] True show ?thesis by simp
    next
      case 2
      from "1.IH"[OF True 2] sint_succ[OF True] show ?thesis by (simp add: algebra_simps)
    qed
  qed
qed

text \<open>The incrementally stepped values are the edge functions evaluated at the pixel, and
  the index is that of the cell in row \<open>r\<close>, column \<open>c\<close>, all in 32-bit arithmetic.\<close>

lemma tri_pixels_closed:
  assumes "p \<in> set (tri_pixels t stride)"
  shows "sint (startY t) \<le> sint (px_r p)" "sint (px_r p) < sint (endY t)"
    "sint (startX t) \<le> sint (px_c p)" "sint (px_c p) < sint (endX t)"
    "px_idx p = px_r p * stride + px_c p"
    "px_alpha p = A0 t * px_c p + B0 t * px_r p + C0 t"
    "px_beta p = A1 t * px_c p + B1 t * px_r p + C1 t"
    "px_gamma p = A2 t * px_c p + B2 t * px_r p + C2 t"
  using row_pixels_closed[OF assms[unfolded tri_pixels_def Let_def]]
  by (simp_all add: algebra_simps)




text \<open>The cell of a pixel as an integer, \<open>r * stride + c\<close>, increases along the list of
  pixels when a row of the bounding box is no wider than the stride.\<close>

lemma col_pixels_keys_sorted:
  "sorted_wrt (<) (map (\<lambda>p. sint (px_r p) * S + sint (px_c p)) (col_pixels t r c idx a b g))"
proof (induction t r c idx a b g rule: col_pixels.induct)
  case (1 t r c idx a b g)
  show ?case
  proof (cases "sint c < sint (endX t)")
    case False
    then show ?thesis by (simp add: col_pixels.simps)
  next
    case True
    have "\<forall>q \<in> set (col_pixels t r (c + 1) (idx + 1) (a + A0 t) (b + A1 t) (g + A2 t)).
            px_r q = r \<and> sint c < sint (px_c q)"
      using col_pixels_closed sint_succ[OF True] by fastforce
    with "1.IH"[OF True] True show ?thesis
      by (subst col_pixels.simps) simp
  qed
qed

lemma row_pixels_keys_sorted:
  "sint (endX t) - sint (startX t) \<le> S \<Longrightarrow>
     sorted_wrt (<) (map (\<lambda>p. sint (px_r p) * S + sint (px_c p))
                      (row_pixels t stride r rowIdx a b g))"
proof (induction t stride r rowIdx a b g rule: row_pixels.induct)
  case (1 t stride r rowIdx a b g)
  show ?case
  proof (cases "sint r < sint (endY t)")
    case False
    then show ?thesis by (simp add: row_pixels.simps)
  next
    case True
    have lt: "sint (px_r p) * S + sint (px_c p) < sint (px_r q) * S + sint (px_c q)"
      if p: "p \<in> set (col_pixels t r (startX t) rowIdx a b g)"
      and q: "q \<in> set (row_pixels t stride (r + 1) (rowIdx + stride)
                        (a + B0 t) (b + B1 t) (g + B2 t))"
      for p q
    proof -
      from col_pixels_closed[OF p]
      have 1: "px_r p = r" "sint (px_c p) < sint (endX t)" by simp_all
      from row_pixels_closed[OF q] sint_succ[OF True]
      have 2: "sint r + 1 \<le> sint (px_r q)" "sint (startX t) \<le> sint (px_c q)"
        "sint (px_c q) < sint (endX t)" by simp_all
      from 2 "1.prems" have "0 \<le> S" by linarith
      with 2 have "0 \<le> (sint (px_r q) - (sint r + 1)) * S" by simp
      then have "(sint r + 1) * S \<le> sint (px_r q) * S" by (simp add: algebra_simps)
      moreover have "(sint r + 1) * S = sint r * S + S" by (simp add: algebra_simps)
      ultimately show ?thesis using 1(2) 2 "1.prems" unfolding 1(1) by linarith
    qed
    from "1.IH"[OF True "1.prems"] col_pixels_keys_sorted[of S t r "startX t" rowIdx a b g] lt True
    show ?thesis
      by (subst row_pixels.simps) (auto simp: sorted_wrt_append)
  qed
qed

text \<open>When the clipped bounding box lies in the rows and columns of a buffer whose rows are
  \<open>stride\<close> cells long and whose cell indices fit a 32-bit \<^verbatim>\<open>int\<close>, the index computed for a
  pixel is \<open>r * stride + c\<close> without wrap-around, and no two pixels have the same index.\<close>

lemma tri_pixels_index:
  assumes box: "0 \<le> sint (startX t)" "sint (endX t) \<le> sint stride" "0 \<le> sint (startY t)"
      "sint (endY t) * sint stride < 2 ^ 31"
    and p: "p \<in> set (tri_pixels t stride)"
  shows "sint (px_idx p) = sint (px_r p) * sint stride + sint (px_c p)"
proof -
  let ?K = "sint (px_r p) * sint stride + sint (px_c p)"
  from tri_pixels_closed[OF p]
  have r: "sint (startY t) \<le> sint (px_r p)" "sint (px_r p) < sint (endY t)"
    and c: "sint (startX t) \<le> sint (px_c p)" "sint (px_c p) < sint (endX t)"
    and idx: "px_idx p = px_r p * stride + px_c p" by simp_all
  from box c have S: "0 \<le> sint stride" by linarith
  from r box have r0: "0 \<le> sint (px_r p)" by linarith
  from r0 S have lo: "0 \<le> sint (px_r p) * sint stride" by simp
  from r have "sint (px_r p) + 1 \<le> sint (endY t)" by simp
  then have "(sint (px_r p) + 1) * sint stride \<le> sint (endY t) * sint stride"
    using S by (rule mult_right_mono)
  then have hi: "sint (px_r p) * sint stride + sint stride \<le> sint (endY t) * sint stride"
    by (simp add: algebra_simps)
  from lo hi box c have range: "- (2 ^ 31) \<le> ?K" "?K < 2 ^ 31" by linarith+
  have "px_idx p = word_of_int ?K" unfolding idx by simp
  then have "sint (px_idx p) = signed_take_bit 31 ?K"
    by (simp only: sint_sbintrunc') simp
  with range show ?thesis by (simp add: signed_take_bit_int_eq_self)
qed

lemma tri_pixels_distinct:
  assumes box: "0 \<le> sint (startX t)" "sint (endX t) \<le> sint stride" "0 \<le> sint (startY t)"
      "sint (endY t) * sint stride < 2 ^ 31"
  shows "distinct (map px_idx (tri_pixels t stride))"
proof -
  from box have w: "sint (endX t) - sint (startX t) \<le> sint stride" by linarith
  have "sorted_wrt (<) (map (\<lambda>p. sint (px_r p) * sint stride + sint (px_c p))
                          (tri_pixels t stride))"
    unfolding tri_pixels_def Let_def using w by (rule row_pixels_keys_sorted)
  then have "distinct (map (\<lambda>p. sint (px_r p) * sint stride + sint (px_c p))
                          (tri_pixels t stride))"
    by (simp add: strict_sorted_iff)
  moreover have "map (\<lambda>p. sint (px_r p) * sint stride + sint (px_c p)) (tri_pixels t stride)
      = map sint (map px_idx (tri_pixels t stride))"
    using tri_pixels_index[OF box] by simp
  ultimately have "distinct (map sint (map px_idx (tri_pixels t stride)))" by simp
  then show ?thesis by (auto simp: distinct_map inj_on_def)
qed

subsection \<open>Triangles: edge functions and interpolation\<close>






lemma exact_interp_depth:
  "interp_depth exact_ops (depth_weights exact_ops t s0 s1 s2) p =
     (real_of_int (sint (px_alpha p)) * real_of_int (uint (vz s0))
      + real_of_int (sint (px_beta p)) * real_of_int (uint (vz s2))
      + real_of_int (sint (px_gamma p)) * real_of_int (uint (vz s1)))
     / real_of_int (sint (triArea t))"
  by (simp add: interp_depth_def depth_weights_def exact_ops_def Let_def field_simps
      add_divide_distrib)




subsection \<open>Triangles: rejection and the depth test\<close>

text \<open>
  \<^bold>\<open>C4.\<close> A triangle whose computed \<open>triArea\<close> (the first edge equation evaluated at vertex 0
  after the reordering of the vertices, in the 32-bit arithmetic of the code) is zero or
  negative leaves every cell of the depth buffer as it was, for every comparison mode and
  every implementation of the float operations.
\<close>

theorem nonpositive_area_no_writes:
  "sint (triArea (triangle_setup x1 y1 x2 y2 s0 s1 s2)) \<le> 0 \<Longrightarrow>
     DepthRasterTriangle F depthBuf stride x1 y1 x2 y2 s0 s1 s2 compareMode = depthBuf"
  by (simp add: DepthRasterTriangle_def Let_def)

theorem nonpositive_area_witness:
  "sint (triArea (triangle_setup 0 0 8 8 ex_a ex_b ex_c)) = - 16
   \<and> DepthRasterTriangle exact_ops (\<lambda>i. 65535) 8 0 0 8 8 ex_a ex_b ex_c GE_COMP_LESS
       = (\<lambda>i. 65535)
   \<and> sint (triArea (triangle_setup 0 0 8 8 ov_a ov_c ov_b)) = - 131071
   \<and> DepthRasterTriangle exact_ops (\<lambda>i. 65535) 8 0 0 8 8 ov_a ov_c ov_b GE_COMP_ALWAYS
       = (\<lambda>i. 65535)"
proof -
  have area: "sint (triArea (triangle_setup 0 0 8 8 ex_a ex_b ex_c)) = - 16"
    by (simp add: triangle_setup_def Let_def ex_a_def ex_b_def ex_c_def)
  have area': "sint (triArea (triangle_setup 0 0 8 8 ov_a ov_c ov_b)) = - 131071"
    by (simp add: triangle_setup_def Let_def ov_a_def ov_b_def ov_c_def)
  have le: "sint (triArea (triangle_setup 0 0 8 8 ex_a ex_b ex_c)) \<le> 0"
    "sint (triArea (triangle_setup 0 0 8 8 ov_a ov_c ov_b)) \<le> 0"
    by (simp_all add: area area')
  from nonpositive_area_no_writes[OF le(1), of exact_ops "\<lambda>i. 65535" 8 GE_COMP_LESS]
    nonpositive_area_no_writes[OF le(2), of exact_ops "\<lambda>i. 65535" 8 GE_COMP_ALWAYS]
    area area'
  show ?thesis by simp
qed

text \<open>The body of the pixel loop touches one cell, and what it leaves there depends on
  that cell only.\<close>

lemma pixel_body_other: "j \<noteq> sint (px_idx p) \<Longrightarrow> pixel_body F m zz p buf j = buf j"
  by (simp add: pixel_body_def Let_def)

lemma pixel_body_cong_cell:
  "buf (sint (px_idx p)) = buf' (sint (px_idx p)) \<Longrightarrow>
     pixel_body F m zz p buf (sint (px_idx p)) = pixel_body F m zz p buf' (sint (px_idx p))"
  by (simp add: pixel_body_def Let_def)

lemma fold_pixel_body_other:
  "j \<notin> (\<lambda>p. sint (px_idx p)) ` set ps \<Longrightarrow> fold (pixel_body F m zz) ps buf j = buf j"
  by (induction ps arbitrary: buf) (auto simp: pixel_body_other)

lemma fold_pixel_body_at:
  "distinct (map px_idx ps) \<Longrightarrow> p \<in> set ps \<Longrightarrow>
     fold (pixel_body F m zz) ps buf (sint (px_idx p))
       = pixel_body F m zz p buf (sint (px_idx p))"
proof (induction ps arbitrary: buf)
  case Nil
  then show ?case by simp
next
  case (Cons a ps)
  show ?case
  proof (cases "p = a")
    case True
    with Cons.prems have "px_idx p \<notin> px_idx ` set ps" by auto
    then have "sint (px_idx p) \<notin> (\<lambda>p. sint (px_idx p)) ` set ps"
      by (auto simp: sint_inject32)
    then show ?thesis using True by (simp add: fold_pixel_body_other)
  next
    case False
    with Cons.prems have pin: "p \<in> set ps" and d: "distinct (map px_idx ps)"
      and na: "px_idx a \<notin> px_idx ` set ps" by auto
    from pin na have "px_idx p \<noteq> px_idx a" by (metis imageI)
    then have ne: "sint (px_idx p) \<noteq> sint (px_idx a)" by (simp add: sint_inject32)
    have "fold (pixel_body F m zz) (a # ps) buf (sint (px_idx p))
        = pixel_body F m zz p (pixel_body F m zz a buf) (sint (px_idx p))"
      using Cons.IH[OF d pin] by simp
    also have "\<dots> = pixel_body F m zz p buf (sint (px_idx p))"
      by (rule pixel_body_cong_cell) (simp add: pixel_body_other ne)
    finally show ?thesis .
  qed
qed

text \<open>Cells that belong to no pixel of the clipped bounding box are never written.\<close>

lemma DepthRasterTriangle_outside_box:
  "j \<notin> (\<lambda>p. sint (px_idx p))
         ` set (tri_pixels (triangle_setup x1 y1 x2 y2 s0 s1 s2) (word_of_int stride)) \<Longrightarrow>
     DepthRasterTriangle F depthBuf stride x1 y1 x2 y2 s0 s1 s2 compareMode j = depthBuf j"
  by (simp add: DepthRasterTriangle_def Let_def fold_pixel_body_other)

lemma trunc0_of_int: "trunc0 (real_of_int k) = k"
  by (simp add: trunc0_def)

text \<open>In exact arithmetic a 16-bit value survives the conversion to float and back.\<close>

lemma exact_roundtrip: "to_u16 exact_ops (from_int exact_ops (uint v)) = v"
proof -
  have "to_u16 exact_ops (from_int exact_ops k) = word_of_int k" for k
    by (simp add: exact_ops_def trunc0_of_int)
  from this[of "uint v"] show ?thesis by simp
qed

text \<open>
  \<^bold>\<open>C5.\<close> Take a rasterized triangle (computed \<open>triArea > 0\<close>) and a pixel \<open>p\<close> of its loops
  that is inside the triangle. After \<^verbatim>\<open>DepthRasterTriangle\<close> returns, the cell of \<open>p\<close> holds
  the interpolated depth converted to 16 bits when the comparison of the mode passes, where
  the interpolated depth is compared with the previous 16-bit value of the cell as floats,
  and holds its previous value when the comparison fails. The hypotheses are that a 16-bit
  value survives the conversion to float and back, as it does for IEEE single precision,
  and that no two pixels of the bounding box have the same index, as is the case when the
  clipped bounding box lies in a buffer whose rows are \<open>stride\<close> cells long and whose
  indices fit a 32-bit \<^verbatim>\<open>int\<close> (\<open>tri_pixels_distinct\<close>). The comparison is
  \<open>depth_test\<close>, in which \<^verbatim>\<open>GE_COMP_NEVER\<close> passes like \<^verbatim>\<open>GE_COMP_ALWAYS\<close>.
\<close>

theorem depth_test_frame:
  assumes roundtrip: "\<And>v. to_u16 F (from_int F (uint v)) = v"
    and t: "t = triangle_setup x1 y1 x2 y2 s0 s1 s2"
    and pos: "0 < sint (triArea t)"
    and cells: "distinct (map px_idx (tri_pixels t (word_of_int stride)))"
    and p: "p \<in> set (tri_pixels t (word_of_int stride))"
    and ins: "inside p"
  shows "DepthRasterTriangle F depthBuf stride x1 y1 x2 y2 s0 s1 s2 compareMode
           (sint (px_idx p))
       = (if depth_test F compareMode (interp_depth F (depth_weights F t s0 s1 s2) p)
               (from_int F (uint (depthBuf (sint (px_idx p)))))
          then to_u16 F (interp_depth F (depth_weights F t s0 s1 s2) p)
          else depthBuf (sint (px_idx p)))"
proof -
  from tri_pixels_closed(1-4)[OF p]
  have box: "endX t \<noteq> startX t" "endY t \<noteq> startY t" by auto
  have "DepthRasterTriangle F depthBuf stride x1 y1 x2 y2 s0 s1 s2 compareMode
      = fold (pixel_body F compareMode (depth_weights F t s0 s1 s2))
          (tri_pixels t (word_of_int stride)) depthBuf"
    using box pos by (simp add: DepthRasterTriangle_def Let_def t[symmetric])
  then have "DepthRasterTriangle F depthBuf stride x1 y1 x2 y2 s0 s1 s2 compareMode
           (sint (px_idx p))
      = pixel_body F compareMode (depth_weights F t s0 s1 s2) p depthBuf (sint (px_idx p))"
    by (simp add: fold_pixel_body_at[OF cells p])
  also have "\<dots> = (if depth_test F compareMode (interp_depth F (depth_weights F t s0 s1 s2) p)
               (from_int F (uint (depthBuf (sint (px_idx p)))))
          then to_u16 F (interp_depth F (depth_weights F t s0 s1 s2) p)
          else depthBuf (sint (px_idx p)))"
    using ins by (simp add: pixel_body_def Let_def roundtrip)
  finally show ?thesis .
qed

theorem depth_test_frame_witness:
  "DepthRasterTriangle exact_ops (\<lambda>i. 150) 8 0 0 8 8 ex_a ex_c ex_b GE_COMP_LESS 9 = 100
   \<and> DepthRasterTriangle exact_ops (\<lambda>i. 150) 8 0 0 8 8 ex_a ex_c ex_b GE_COMP_LESS 17 = 150"
proof -
  let ?t = "triangle_setup 0 0 8 8 ex_a ex_c ex_b"
  have pos: "0 < sint (triArea ?t)"
    by (simp add: triangle_setup_def Let_def ex_a_def ex_b_def ex_c_def)
  have cells: "distinct (map px_idx (tri_pixels ?t (word_of_int 8)))"
    by (simp add: tri_eval)
  have p11: "ex_p11 \<in> set (tri_pixels ?t (word_of_int 8))"
    and p21: "ex_p21 \<in> set (tri_pixels ?t (word_of_int 8))"
    by (simp_all add: tri_eval ex_p11_def ex_p21_def)
  have ins: "inside ex_p11" "inside ex_p21"
    by (simp_all add: inside_def ex_p11_def ex_p21_def)
  have d11: "interp_depth exact_ops (depth_weights exact_ops ?t ex_a ex_c ex_b) ex_p11 = 100"
    and d21: "interp_depth exact_ops (depth_weights exact_ops ?t ex_a ex_c ex_b) ex_p21 = 200"
    by (simp_all add: exact_interp_depth triangle_setup_def Let_def ex_p11_def ex_p21_def
        ex_a_def ex_b_def ex_c_def)
  have i11: "sint (px_idx ex_p11) = 9" and i21: "sint (px_idx ex_p21) = 17"
    by (simp_all add: ex_p11_def ex_p21_def)
  have lt: "flt exact_ops = (<)" "from_int exact_ops = real_of_int"
    "to_u16 exact_ops = (\<lambda>v. word_of_int (trunc0 v))"
    by (simp_all add: exact_ops_def)
  from depth_test_frame[of exact_ops, OF exact_roundtrip refl pos cells p11 ins(1),
      of "\<lambda>i. 150" GE_COMP_LESS]
    depth_test_frame[of exact_ops, OF exact_roundtrip refl pos cells p21 ins(2),
      of "\<lambda>i. 150" GE_COMP_LESS]
  show ?thesis
    unfolding d11 d21 i11 i21
    by (simp add: depth_test_def lt trunc0_def)
qed

subsection \<open>Primitives: the transform loop\<close>

text \<open>The transform loop writes the transformed vertex to every index from \<open>i\<close> below
  \<open>count\<close>, and \<^verbatim>\<open>allBehind\<close> survives when no vertex is in front.\<close>

lemma transform_loop_result:
  "transform_loop F H gs vs count i sv ab =
     ((\<lambda>j. if i \<le> j \<and> j < count then fst (transform_vertex F H gs vs j) else sv j),
      ab \<and> (\<forall>j. i \<le> j \<and> j < count \<longrightarrow> \<not> snd (transform_vertex F H gs vs j)))"
proof (induction F H gs vs count i sv ab rule: transform_loop.induct)
  case (1 F H gs vs count i sv ab)
  show ?case
  proof (cases "i < count")
    case False
    then show ?thesis by (subst transform_loop.simps) (auto simp: fun_eq_iff)
  next
    case True
    obtain v inFront where tv: "transform_vertex F H gs vs i = (v, inFront)"
      by (cases "transform_vertex F H gs vs i")
    have step: "transform_loop F H gs vs count i sv ab =
        transform_loop F H gs vs count (i + 1) (sv(i := v)) (if inFront then False else ab)"
      using True tv by (subst transform_loop.simps) simp
    have range: "(i \<le> j \<and> j < count) = (j = i \<or> (i + 1 \<le> j \<and> j < count))" for j
      using True by auto
    show ?thesis
      unfolding step "1.IH"[OF True tv[symmetric]]
      using tv by (auto simp: fun_eq_iff range)
  qed
qed

lemma snd_transform_vertex:
  "snd (transform_vertex F H gs vs i) = flt F (from_int F 0) (clip_w H gs vs i)"
  by (simp add: transform_vertex_def clip_w_def Let_def split: prod.splits)

lemma behind_transform_vertex:
  "truthy (behind (fst (transform_vertex F H gs vs i)))
     = (\<not> flt F (from_int F 0) (clip_w H gs vs i))"
  by (simp add: transform_vertex_def clip_w_def Let_def truthy_def split: prod.splits)

lemma draw_prim_all_behind:
  assumes nt: "(vertTypeID AND GE_VTYPE_THROUGH_MASK K) = 0"
    and ab: "\<forall>i. 0 \<le> i \<and> i < count \<longrightarrow>
               \<not> flt F (from_int F 0)
                   (clip_w H gstate
                      (decode_positions F K vertexData dec vertTypeID count (verts bufferData)) i)"
  shows "draw_prim a F H K gstate depth depthStride x1 y1 x2 y2 bufferData vertexData prim count
           dec vertTypeID compareMode = depth"
  using nt ab
  by (simp add: draw_prim_def Let_def transform_loop_result snd_transform_vertex
      split: GEPrimitiveType.splits)

text \<open>The exact operations order every value against zero.\<close>

lemma exact_total_order:
  "fle exact_ops v (from_int exact_ops 0) = (\<not> flt exact_ops (from_int exact_ops 0) v)"
  by (auto simp: exact_ops_def)

text \<open>With the projection matrix of \<open>clear_gstate\<close> every vertex has \<open>w = -1\<close>.\<close>

lemma clear_gstate_clip_w: "clip_w exact_helpers clear_gstate vs i = - 1"
  by (simp add: clip_w_def clip_coords_def exact_helpers_def clear_gstate_def)

subsection \<open>Primitives: gating\<close>

text \<open>
  \<^bold>\<open>C6.\<close> \<^verbatim>\<open>DepthRasterPrim\<close> leaves the depth buffer as it was
  \<^item> in clear mode when the clear-mode depth mask is not set;
  \<^item> outside clear mode unless both the depth test and the depth write are enabled;
  \<^item> for points, lines, line strips, the invalid and the keep-previous primitive;
  \<^item> for a vertex type with an index format or a weight format.

  In clear mode with the depth mask set it is the rest of the function run with the
  comparison mode \<^verbatim>\<open>GE_COMP_ALWAYS\<close>; outside clear mode with both flags enabled it is the
  rest of the function run with the depth test function of the state. The rest of the
  function, \<open>draw_prim\<close>, reads the comparison mode from that argument only: it does not
  depend on the depth test function of the state.
\<close>

theorem DepthRasterPrim_gating:
  "(isModeClear gstate \<and> \<not> isClearModeDepthMask gstate \<longrightarrow>
      DepthRasterPrim a F H K gstate depth depthStride x1 y1 x2 y2 bufferData vertexData prim
        count dec vertTypeID clockwise = depth)
   \<and> (isModeClear gstate \<and> isClearModeDepthMask gstate \<longrightarrow>
      DepthRasterPrim a F H K gstate depth depthStride x1 y1 x2 y2 bufferData vertexData prim
        count dec vertTypeID clockwise
      = draw_prim a F H K gstate depth depthStride x1 y1 x2 y2 bufferData vertexData prim
          count dec vertTypeID GE_COMP_ALWAYS)
   \<and> (\<not> isModeClear gstate \<and> \<not> (isDepthTestEnabled gstate \<and> isDepthWriteEnabled gstate) \<longrightarrow>
      DepthRasterPrim a F H K gstate depth depthStride x1 y1 x2 y2 bufferData vertexData prim
        count dec vertTypeID clockwise = depth)
   \<and> (\<not> isModeClear gstate \<and> isDepthTestEnabled gstate \<and> isDepthWriteEnabled gstate \<longrightarrow>
      DepthRasterPrim a F H K gstate depth depthStride x1 y1 x2 y2 bufferData vertexData prim
        count dec vertTypeID clockwise
      = draw_prim a F H K gstate depth depthStride x1 y1 x2 y2 bufferData vertexData prim
          count dec vertTypeID (getDepthTestFunction gstate))
   \<and> (prim \<in> {GE_PRIM_POINTS, GE_PRIM_LINES, GE_PRIM_LINE_STRIP, GE_PRIM_INVALID,
                GE_PRIM_KEEP_PREVIOUS} \<longrightarrow>
      DepthRasterPrim a F H K gstate depth depthStride x1 y1 x2 y2 bufferData vertexData prim
        count dec vertTypeID clockwise = depth)
   \<and> ((vertTypeID AND (GE_VTYPE_IDX_MASK K OR GE_VTYPE_WEIGHT_MASK K)) \<noteq> 0 \<longrightarrow>
      DepthRasterPrim a F H K gstate depth depthStride x1 y1 x2 y2 bufferData vertexData prim
        count dec vertTypeID clockwise = depth)
   \<and> draw_prim a F H K (gstate\<lparr>getDepthTestFunction := fn\<rparr>) depth depthStride x1 y1 x2 y2
        bufferData vertexData prim count dec vertTypeID compareMode
      = draw_prim a F H K gstate depth depthStride x1 y1 x2 y2 bufferData vertexData prim
          count dec vertTypeID compareMode"
proof -
  have tv: "transform_vertex F H (gstate\<lparr>getDepthTestFunction := fn\<rparr>) vs i
      = transform_vertex F H gstate vs i" for vs i
    by (simp add: transform_vertex_def clip_coords_def)
  have dp: "draw_prim a F H K (gstate\<lparr>getDepthTestFunction := fn\<rparr>) depth depthStride
          x1 y1 x2 y2 bufferData vertexData prim count dec vertTypeID m
      = draw_prim a F H K gstate depth depthStride x1 y1 x2 y2 bufferData vertexData prim count
          dec vertTypeID m" for m
    unfolding draw_prim_def Let_def transform_loop_result tv by (rule refl)
  have g1: "(vertTypeID AND (GE_VTYPE_IDX_MASK K OR GE_VTYPE_WEIGHT_MASK K)) \<noteq> 0 \<Longrightarrow>
      draw_prim a F H K gstate depth depthStride x1 y1 x2 y2 bufferData vertexData prim count
          dec vertTypeID m = depth" for m
    by (simp add: draw_prim_def split: GEPrimitiveType.splits)
  have g2: "prim \<in> {GE_PRIM_POINTS, GE_PRIM_LINES, GE_PRIM_LINE_STRIP, GE_PRIM_INVALID,
                GE_PRIM_KEEP_PREVIOUS} \<Longrightarrow>
      draw_prim a F H K gstate depth depthStride x1 y1 x2 y2 bufferData vertexData prim count
          dec vertTypeID m = depth" for m
    by (auto simp add: draw_prim_def)
  show ?thesis
    by (simp add: DepthRasterPrim_def dp g1 g2 del: insert_iff)
qed

theorem DepthRasterPrim_gating_witness:
  "DepthRasterPrim SSE2 exact_ops exact_helpers psp_vtype
       (clear_gstate\<lparr>isClearModeDepthMask := False\<rparr>) (\<lambda>i. 65535) 8 0 0 8 8 (scratch_with 0)
       (bytes_memory tri_bytes) GE_PRIM_TRIANGLES 3 packed3 through_8bit False = (\<lambda>i. 65535)
   \<and> DepthRasterPrim SSE2 exact_ops exact_helpers psp_vtype clear_gstate (\<lambda>i. 65535) 8 0 0 8 8
       (scratch_with 0) (bytes_memory tri_bytes) GE_PRIM_TRIANGLES 3 packed3 through_8bit False
     = draw_prim SSE2 exact_ops exact_helpers psp_vtype clear_gstate (\<lambda>i. 65535) 8 0 0 8 8
         (scratch_with 0) (bytes_memory tri_bytes) GE_PRIM_TRIANGLES 3 packed3 through_8bit
         GE_COMP_ALWAYS
   \<and> DepthRasterPrim SSE2 exact_ops exact_helpers psp_vtype
       (clear_gstate\<lparr>isModeClear := False, isDepthTestEnabled := True\<rparr>) (\<lambda>i. 65535) 8 0 0 8 8
       (scratch_with 0) (bytes_memory tri_bytes) GE_PRIM_TRIANGLES 3 packed3 through_8bit False
     = (\<lambda>i. 65535)
   \<and> DepthRasterPrim SSE2 exact_ops exact_helpers psp_vtype
       (clear_gstate\<lparr>isModeClear := False, isDepthTestEnabled := True,
                      isDepthWriteEnabled := True\<rparr>) (\<lambda>i. 65535) 8 0 0 8 8
       (scratch_with 0) (bytes_memory tri_bytes) GE_PRIM_TRIANGLES 3 packed3 through_8bit False
     = draw_prim SSE2 exact_ops exact_helpers psp_vtype
         (clear_gstate\<lparr>isModeClear := False, isDepthTestEnabled := True,
                        isDepthWriteEnabled := True\<rparr>) (\<lambda>i. 65535) 8 0 0 8 8
         (scratch_with 0) (bytes_memory tri_bytes) GE_PRIM_TRIANGLES 3 packed3 through_8bit
         GE_COMP_NEVER
   \<and> DepthRasterPrim SSE2 exact_ops exact_helpers psp_vtype clear_gstate (\<lambda>i. 65535) 8 0 0 8 8
       (scratch_with 0) (bytes_memory tri_bytes) GE_PRIM_LINE_STRIP 3 packed3 through_8bit False
     = (\<lambda>i. 65535)
   \<and> DepthRasterPrim SSE2 exact_ops exact_helpers psp_vtype clear_gstate (\<lambda>i. 65535) 8 0 0 8 8
       (scratch_with 0) (bytes_memory tri_bytes) GE_PRIM_TRIANGLES 3 packed3 0x800880 False
     = (\<lambda>i. 65535)"
proof (intro conjI)
  show "DepthRasterPrim SSE2 exact_ops exact_helpers psp_vtype
       (clear_gstate\<lparr>isClearModeDepthMask := False\<rparr>) (\<lambda>i. 65535) 8 0 0 8 8 (scratch_with 0)
       (bytes_memory tri_bytes) GE_PRIM_TRIANGLES 3 packed3 through_8bit False = (\<lambda>i. 65535)"
    by (rule DepthRasterPrim_gating[THEN conjunct1, THEN mp]) (simp add: clear_gstate_def)
  show "DepthRasterPrim SSE2 exact_ops exact_helpers psp_vtype clear_gstate (\<lambda>i. 65535) 8 0 0 8 8
       (scratch_with 0) (bytes_memory tri_bytes) GE_PRIM_TRIANGLES 3 packed3 through_8bit False
     = draw_prim SSE2 exact_ops exact_helpers psp_vtype clear_gstate (\<lambda>i. 65535) 8 0 0 8 8
         (scratch_with 0) (bytes_memory tri_bytes) GE_PRIM_TRIANGLES 3 packed3 through_8bit
         GE_COMP_ALWAYS"
    by (rule DepthRasterPrim_gating[THEN conjunct2, THEN conjunct1, THEN mp])
      (simp add: clear_gstate_def)
  show "DepthRasterPrim SSE2 exact_ops exact_helpers psp_vtype
       (clear_gstate\<lparr>isModeClear := False, isDepthTestEnabled := True\<rparr>) (\<lambda>i. 65535) 8 0 0 8 8
       (scratch_with 0) (bytes_memory tri_bytes) GE_PRIM_TRIANGLES 3 packed3 through_8bit False
     = (\<lambda>i. 65535)"
    by (rule DepthRasterPrim_gating[THEN conjunct2, THEN conjunct2, THEN conjunct1, THEN mp])
      (simp add: clear_gstate_def)
  let ?g = "clear_gstate\<lparr>isModeClear := False, isDepthTestEnabled := True,
                      isDepthWriteEnabled := True\<rparr>"
  have fn: "getDepthTestFunction ?g = GE_COMP_NEVER"
    by (simp add: clear_gstate_def)
  have "DepthRasterPrim SSE2 exact_ops exact_helpers psp_vtype ?g (\<lambda>i. 65535) 8 0 0 8 8
       (scratch_with 0) (bytes_memory tri_bytes) GE_PRIM_TRIANGLES 3 packed3 through_8bit False
     = draw_prim SSE2 exact_ops exact_helpers psp_vtype ?g (\<lambda>i. 65535) 8 0 0 8 8
         (scratch_with 0) (bytes_memory tri_bytes) GE_PRIM_TRIANGLES 3 packed3 through_8bit
         (getDepthTestFunction ?g)"
    by (rule DepthRasterPrim_gating[THEN conjunct2, THEN conjunct2, THEN conjunct2,
          THEN conjunct1, THEN mp]) (simp add: clear_gstate_def)
  then show "DepthRasterPrim SSE2 exact_ops exact_helpers psp_vtype ?g (\<lambda>i. 65535) 8 0 0 8 8
       (scratch_with 0) (bytes_memory tri_bytes) GE_PRIM_TRIANGLES 3 packed3 through_8bit False
     = draw_prim SSE2 exact_ops exact_helpers psp_vtype ?g (\<lambda>i. 65535) 8 0 0 8 8
         (scratch_with 0) (bytes_memory tri_bytes) GE_PRIM_TRIANGLES 3 packed3 through_8bit
         GE_COMP_NEVER"
    unfolding fn .
  show "DepthRasterPrim SSE2 exact_ops exact_helpers psp_vtype clear_gstate (\<lambda>i. 65535) 8 0 0 8 8
       (scratch_with 0) (bytes_memory tri_bytes) GE_PRIM_LINE_STRIP 3 packed3 through_8bit False
     = (\<lambda>i. 65535)"
    by (rule DepthRasterPrim_gating[THEN conjunct2, THEN conjunct2, THEN conjunct2,
          THEN conjunct2, THEN conjunct1, THEN mp]) simp
  show "DepthRasterPrim SSE2 exact_ops exact_helpers psp_vtype clear_gstate (\<lambda>i. 65535) 8 0 0 8 8
       (scratch_with 0) (bytes_memory tri_bytes) GE_PRIM_TRIANGLES 3 packed3 0x800880 False
     = (\<lambda>i. 65535)"
    by (rule DepthRasterPrim_gating[THEN conjunct2, THEN conjunct2, THEN conjunct2,
          THEN conjunct2, THEN conjunct2, THEN conjunct1, THEN mp]) (simp add: psp_vtype_def)
qed

subsection \<open>Primitives: vertices behind the camera\<close>

text \<open>
  \<^bold>\<open>C7.\<close> In a draw that is not in through mode, the transform loop marks vertex \<open>i\<close> behind
  exactly when its clip-space \<open>w\<close> is not greater than zero: the source tests \<^verbatim>\<open>w > 0.0f\<close>
  and negates. For a vertex whose \<open>w\<close> is ordered against zero (\<open>w \<le> 0\<close> is the negation of
  \<open>0 < w\<close>, as for every float but NaN) this is exactly when \<open>w \<le> 0\<close>. When every vertex of
  the draw is marked behind the call leaves the depth buffer as it was. Nothing is assumed
  of the float operations.
\<close>

theorem behind_iff_not_in_front:
  assumes nt: "(vertTypeID AND GE_VTYPE_THROUGH_MASK K) = 0"
    and vs: "vs = decode_positions F K vertexData dec vertTypeID count (verts bufferData)"
  shows "(\<forall>i. 0 \<le> i \<and> i < count \<longrightarrow>
            truthy (behind (fst (transform_loop F H gstate vs count 0
                                   (screenVerts bufferData) True) i))
            = (\<not> flt F (from_int F 0) (clip_w H gstate vs i)))
       \<and> (\<forall>i. 0 \<le> i \<and> i < count
              \<and> fle F (clip_w H gstate vs i) (from_int F 0)
                  = (\<not> flt F (from_int F 0) (clip_w H gstate vs i)) \<longrightarrow>
            truthy (behind (fst (transform_loop F H gstate vs count 0
                                   (screenVerts bufferData) True) i))
            = fle F (clip_w H gstate vs i) (from_int F 0))
       \<and> ((\<forall>i. 0 \<le> i \<and> i < count \<longrightarrow> \<not> flt F (from_int F 0) (clip_w H gstate vs i)) \<longrightarrow>
            DepthRasterPrim a F H K gstate depth depthStride x1 y1 x2 y2 bufferData vertexData
              prim count dec vertTypeID clockwise = depth)"
proof (intro conjI allI impI)
  fix i assume "0 \<le> i \<and> i < count"
  then show "truthy (behind (fst (transform_loop F H gstate vs count 0
                                   (screenVerts bufferData) True) i))
            = (\<not> flt F (from_int F 0) (clip_w H gstate vs i))"
    by (simp add: transform_loop_result behind_transform_vertex)
next
  fix i assume "0 \<le> i \<and> i < count
              \<and> fle F (clip_w H gstate vs i) (from_int F 0)
                  = (\<not> flt F (from_int F 0) (clip_w H gstate vs i))"
  then show "truthy (behind (fst (transform_loop F H gstate vs count 0
                                   (screenVerts bufferData) True) i))
            = fle F (clip_w H gstate vs i) (from_int F 0)"
    by (simp add: transform_loop_result behind_transform_vertex)
next
  assume "\<forall>i. 0 \<le> i \<and> i < count \<longrightarrow> \<not> flt F (from_int F 0) (clip_w H gstate vs i)"
  then have "\<forall>i. 0 \<le> i \<and> i < count \<longrightarrow>
               \<not> flt F (from_int F 0)
                   (clip_w H gstate
                      (decode_positions F K vertexData dec vertTypeID count (verts bufferData)) i)"
    by (simp add: vs)
  from draw_prim_all_behind[OF nt this]
  show "DepthRasterPrim a F H K gstate depth depthStride x1 y1 x2 y2 bufferData vertexData
              prim count dec vertTypeID clockwise = depth"
    by (simp add: DepthRasterPrim_def)
qed

theorem behind_iff_not_in_front_witness:
  "truthy (behind (fst (transform_loop exact_ops exact_helpers clear_gstate
             (decode_positions exact_ops psp_vtype (bytes_memory tri_bytes) packed3 pos_8bit 3
                (verts (scratch_with 0)))
             3 0 (screenVerts (scratch_with 0)) True) 1))
   \<and> fle exact_ops
       (clip_w exact_helpers clear_gstate
          (decode_positions exact_ops psp_vtype (bytes_memory tri_bytes) packed3 pos_8bit 3
             (verts (scratch_with 0))) 1)
       (from_int exact_ops 0)
   \<and> DepthRasterPrim SSE2 exact_ops exact_helpers psp_vtype clear_gstate (\<lambda>i. 65535) 8 0 0 8 8
       (scratch_with 0) (bytes_memory tri_bytes) GE_PRIM_TRIANGLES 3 packed3 pos_8bit False
     = (\<lambda>i. 65535)"
proof -
  have nt: "(pos_8bit AND GE_VTYPE_THROUGH_MASK psp_vtype) = 0"
    by (simp add: pos_8bit_def psp_vtype_def)
  have le: "fle exact_ops (clip_w exact_helpers clear_gstate vs i) (from_int exact_ops 0)"
    for vs i
    by (simp add: clear_gstate_clip_w) (simp add: exact_ops_def)
  have nlt: "\<not> flt exact_ops (from_int exact_ops 0) (clip_w exact_helpers clear_gstate vs i)"
    for vs i
    using le[of vs i] by (simp add: exact_total_order)
  note th = behind_iff_not_in_front[of pos_8bit psp_vtype _ exact_ops
      "bytes_memory tri_bytes" packed3 3 "scratch_with 0" exact_helpers clear_gstate,
      OF nt refl]
  from th[THEN conjunct2, THEN conjunct1] le exact_total_order
  have "truthy (behind (fst (transform_loop exact_ops exact_helpers clear_gstate
             (decode_positions exact_ops psp_vtype (bytes_memory tri_bytes) packed3 pos_8bit 3
                (verts (scratch_with 0)))
             3 0 (screenVerts (scratch_with 0)) True) 1))"
    by simp
  moreover from th[THEN conjunct2, THEN conjunct2] nlt
  have "DepthRasterPrim SSE2 exact_ops exact_helpers psp_vtype clear_gstate (\<lambda>i. 65535) 8 0 0 8 8
       (scratch_with 0) (bytes_memory tri_bytes) GE_PRIM_TRIANGLES 3 packed3 pos_8bit False
     = (\<lambda>i. 65535)"
    by simp
  ultimately show ?thesis using le by simp
qed

text \<open>The claim as it was stated, behind exactly when \<open>w \<le> 0\<close>, fails for a NaN. The vertex
  of the draw \<open>nan_memory\<close> has position \<open>x = NaN\<close>, so its \<open>w\<close> is NaN: it is marked behind,
  and \<open>w \<le> 0\<close> is false.\<close>

theorem nan_w_is_marked_behind:
  "clip_w nan_helpers nan_gstate
     (decode_positions nan_ops psp_vtype nan_memory packed12 pos_float 1 (verts nan_scratch)) 0
     = None
   \<and> truthy (behind (fst (transform_loop nan_ops nan_helpers nan_gstate
        (decode_positions nan_ops psp_vtype nan_memory packed12 pos_float 1 (verts nan_scratch))
        1 0 (screenVerts nan_scratch) True) 0))
   \<and> \<not> fle nan_ops
         (clip_w nan_helpers nan_gstate
            (decode_positions nan_ops psp_vtype nan_memory packed12 pos_float 1
               (verts nan_scratch)) 0)
         (from_int nan_ops 0)"
proof -
  have vs: "decode_positions nan_ops psp_vtype nan_memory packed12 pos_float 1 (verts nan_scratch)
      = (\<lambda>i. Some 0)(0 := None, 1 := Some 1, 2 := Some 1)"
    by (simp add: decode_positions_def decode_float.simps psp_vtype_def nan_memory_def
        packed12_def pos_float_def nan_scratch_def)
  have w: "clip_w nan_helpers nan_gstate ((\<lambda>i. Some 0)(0 := None, 1 := Some 1, 2 := Some 1)) 0
      = None"
    by (simp add: clip_w_def clip_coords_def nan_helpers_def nan_gstate_def nan_lift_def)
  show ?thesis
    unfolding vs
    by (simp add: transform_loop_result behind_transform_vertex w) (simp add: nan_ops_def nan_cmp_def)
qed

subsection \<open>Primitives: what the result does not depend on\<close>

text \<open>
  \<^bold>\<open>C10.\<close> The depth buffer after \<^verbatim>\<open>DepthRasterPrim\<close> does not depend on the argument
  \<^verbatim>\<open>clockwise\<close>, nor on the cull enable and the cull direction of the state: two calls that
  differ in these only give the same buffer.
\<close>

theorem DepthRasterPrim_ignores_winding_and_cull:
  "DepthRasterPrim a F H K (gstate\<lparr>isCullEnabled := ce, getCullMode := cm\<rparr>) depth depthStride
       x1 y1 x2 y2 bufferData vertexData prim count dec vertTypeID clockwise'
   = DepthRasterPrim a F H K gstate depth depthStride x1 y1 x2 y2 bufferData vertexData prim count
       dec vertTypeID clockwise"
proof -
  have tv: "transform_vertex F H (gstate\<lparr>isCullEnabled := ce, getCullMode := cm\<rparr>) vs i
      = transform_vertex F H gstate vs i" for vs i
    by (simp add: transform_vertex_def clip_coords_def)
  have "draw_prim a F H K (gstate\<lparr>isCullEnabled := ce, getCullMode := cm\<rparr>) depth depthStride
          x1 y1 x2 y2 bufferData vertexData prim count dec vertTypeID m
      = draw_prim a F H K gstate depth depthStride x1 y1 x2 y2 bufferData vertexData prim count
          dec vertTypeID m" for m
    unfolding draw_prim_def Let_def transform_loop_result tv by (rule refl)
  then show ?thesis by (simp add: DepthRasterPrim_def)
qed

text \<open>The through-mode loop leaves every \<^verbatim>\<open>behind\<close> field as the scratch buffer held it.\<close>

lemma through_loop_keeps_behind:
  "behind (through_loop F H vs count i sv j) = behind (sv j)"
proof (induction F H vs count i sv rule: through_loop.induct)
  case (1 F H vs count i sv)
  show ?case
  proof (cases "i < count")
    case False
    then show ?thesis by (subst through_loop.simps) simp
  next
    case True
    define sv' where "sv' = sv(i := (sv i)\<lparr> vx := to_int F (vs (i * 3 + 0)),
                              vy := to_int F (vs (i * 3 + 1)),
                              vz := to_u16 F (clamp_value H (vs (i * 3 + 2))
                                               (from_int F 0) (from_int F 65535)) \<rparr>)"
    have step: "through_loop F H vs count i sv = through_loop F H vs count (i + 1) sv'"
      using True unfolding sv'_def by (subst through_loop.simps) simp
    have "behind (through_loop F H vs count (i + 1) sv' j) = behind (sv' j)"
      unfolding sv'_def by (rule "1.IH"[OF True])
    also have "\<dots> = behind (sv j)" by (simp add: sv'_def)
    finally show ?thesis unfolding step .
  qed
qed

text \<open>
  \<^bold>\<open>C9.\<close> The claim is that in through mode the result does not depend on what the scratch
  buffer held before the call. The through-mode loop assigns \<^verbatim>\<open>x\<close>, \<^verbatim>\<open>y\<close> and \<^verbatim>\<open>z\<close> of
  every \<^verbatim>\<open>screenVerts[i]\<close> and never \<^verbatim>\<open>behind\<close>, which the triangle loops then read. For the
  same through-mode triangle, in clear mode with scissor (0,0)-(2,2), cell 0 becomes 5 when
  the scratch buffer held \<^verbatim>\<open>behind = 0\<close> and stays 65535 when it held \<^verbatim>\<open>behind = 1\<close>.
\<close>

theorem through_mode_reads_stale_behind:
  "DepthRasterPrim SSE2 exact_ops exact_helpers psp_vtype clear_gstate (\<lambda>i. 65535) 8 0 0 2 2
     (scratch_with 0) (bytes_memory tri_bytes) GE_PRIM_TRIANGLES 3 packed3 through_8bit False 0 = 5
   \<and> DepthRasterPrim SSE2 exact_ops exact_helpers psp_vtype clear_gstate (\<lambda>i. 65535) 8 0 0 2 2
     (scratch_with 1) (bytes_memory tri_bytes) GE_PRIM_TRIANGLES 3 packed3 through_8bit False 0
     = 65535"
proof -
  have vs: "decode_positions exact_ops psp_vtype (bytes_memory tri_bytes) packed3 through_8bit 3
              (verts (scratch_with b))
            = (\<lambda>i. 0)(0 := 0, 1 := 0, 2 := 5, 3 := 0, 4 := 4, 5 := 5, 6 := 4, 7 := 0, 8 := 5)"
    for b
    by (simp add: decode_positions_def decode_8bit.simps psp_vtype_def bytes_memory_def
        packed3_def through_8bit_def exact_ops_def scratch_with_def tri_bytes_def)
  have sv: "through_loop exact_ops exact_helpers
              ((\<lambda>i. 0)(0 := 0, 1 := 0, 2 := 5, 3 := 0, 4 := 4, 5 := 5, 6 := 4, 7 := 0, 8 := 5))
              3 0 (screenVerts (scratch_with b))
            = (\<lambda>i. \<lparr>vx = 0, vy = 0, vz = 0, behind = b\<rparr>)
                (0 := \<lparr>vx = 0, vy = 0, vz = 5, behind = b\<rparr>,
                 1 := \<lparr>vx = 0, vy = 4, vz = 5, behind = b\<rparr>,
                 2 := \<lparr>vx = 4, vy = 0, vz = 5, behind = b\<rparr>)" for b
    by (simp add: through_loop.simps exact_ops_def exact_helpers_def scratch_with_def trunc0_def)
  show ?thesis
    unfolding DepthRasterPrim_def draw_prim_def Let_def vs sv
    by (simp add: clear_gstate_def psp_vtype_def through_8bit_def stitch_def cdiv_def
        prim_triangles.simps truthy_def tri_eval)
qed

subsection \<open>Primitives: rectangles\<close>

text \<open>With at least two rectangles in the draw, the second one is made of vertices 1 and 2
  and filled with the depth of vertex 2.\<close>

lemma prim_rectangles_second:
  "1 < n \<Longrightarrow>
     prim_rectangles a depthStride sv compareMode n 0 depth =
     prim_rectangles a depthStride sv compareMode n 2
       (DepthRasterRect a
          (DepthRasterRect a depth depthStride (vx (sv 0)) (vy (sv 0)) (vx (sv 1)) (vy (sv 1))
             (vz (sv 1)) compareMode)
          depthStride (vx (sv 1)) (vy (sv 1)) (vx (sv 2)) (vy (sv 2)) (vz (sv 2)) compareMode)"
  by (subst prim_rectangles.simps, simp, subst prim_rectangles.simps, simp)

text \<open>
  \<^bold>\<open>C2.\<close> The claim is that rectangle \<open>i\<close> is made of vertices \<open>2i\<close> and \<open>2i + 1\<close> and filled
  with the depth of vertex \<open>2i + 1\<close>. The loop runs \<open>i\<close> from 0 to \<open>count / 2 - 1\<close> and takes
  \<^verbatim>\<open>screenVerts[i]\<close> and \<^verbatim>\<open>screenVerts[i + 1]\<close>. For the four corners (0,0), (8,1), (0,2), (8,3)
  with depths 3, 3, 7, 9, in through mode and clear mode on a buffer of stride 8 filled with
  65535: row 0 becomes 3; row 1, between vertices 1 and 2, becomes 7, the depth of vertex
  2; row 2, between vertices 2 and 3, keeps 65535.
\<close>

theorem rectangles_take_vertices_i_and_i_plus_1:
  "map (DepthRasterPrim SSE2 exact_ops exact_helpers psp_vtype clear_gstate (\<lambda>i. 65535) 8
          0 0 8 8 (scratch_with 0) (bytes_memory rect_bytes) GE_PRIM_RECTANGLES 4 packed3
          through_8bit False)
     [0, 7, 8, 15, 16, 23]
   = [3, 3, 7, 7, 65535, 65535]"
proof -
  have vs: "decode_positions exact_ops psp_vtype (bytes_memory rect_bytes) packed3 through_8bit 4
              (verts (scratch_with 0))
            = (\<lambda>i. 0)(0 := 0, 1 := 0, 2 := 3, 3 := 8, 4 := 1, 5 := 3, 6 := 0, 7 := 2, 8 := 7,
                       9 := 8, 10 := 3, 11 := 9)"
    by (simp add: decode_positions_def decode_8bit.simps psp_vtype_def bytes_memory_def
        packed3_def through_8bit_def exact_ops_def scratch_with_def rect_bytes_def)
  have sv: "through_loop exact_ops exact_helpers
              ((\<lambda>i. 0)(0 := 0, 1 := 0, 2 := 3, 3 := 8, 4 := 1, 5 := 3, 6 := 0, 7 := 2, 8 := 7,
                        9 := 8, 10 := 3, 11 := 9))
              4 0 (screenVerts (scratch_with 0))
            = (\<lambda>i. \<lparr>vx = 0, vy = 0, vz = 0, behind = 0\<rparr>)
                (0 := \<lparr>vx = 0, vy = 0, vz = 3, behind = 0\<rparr>,
                 1 := \<lparr>vx = 8, vy = 1, vz = 3, behind = 0\<rparr>,
                 2 := \<lparr>vx = 0, vy = 2, vz = 7, behind = 0\<rparr>,
                 3 := \<lparr>vx = 8, vy = 3, vz = 9, behind = 0\<rparr>)"
    by (simp add: through_loop.simps exact_ops_def exact_helpers_def scratch_with_def trunc0_def)
  show ?thesis
    unfolding DepthRasterPrim_def draw_prim_def Let_def vs sv
    by (simp add: clear_gstate_def psp_vtype_def through_8bit_def stitch_def cdiv_def
        prim_rectangles.simps rect_eval)
qed

end
